theory Spec2Isabelle
  imports Main
begin

section \<open>Data model\<close>

text \<open>
  The store is a MongoDB database with four collections (users, orders, products, counters).
  An ObjectId is an opaque identity and a Date a point on a clock; both are natural numbers
  here. Amounts and prices are JavaScript numbers: they are kept abstract as a type \<open>'a\<close>
  of which only \<open>0\<close> and \<open>+\<close> are used, exactly as the source uses them, so that no law
  of exact arithmetic is assumed anywhere.
\<close>

type_synonym oid = nat
type_synonym date = nat

datatype Role = Customer | Admin

datatype StatusType = Cancelled | Completed | New | Delivering

text \<open>
  The texts of the error messages, one constructor per message of the source (the source's
  messages are Russian sentences; two of them embed a product id).
\<close>

datatype message =
    InvalidToken          \<comment> \<open>session middleware, no Bearer header\<close>
  | TokenNotValid         \<comment> \<open>refresh cookie absent or empty\<close>
  | UserNotInBase         \<comment> \<open>refresh token of a user that is gone\<close>
  | AuthorizationNeeded
  | TokenLifetimeOver
  | NoAccess              \<comment> \<open>session middleware, user of the token is gone\<close>
  | AccessDenied          \<comment> \<open>role guard and ownership guard\<close>
  | NotFoundPlain         \<comment> \<open>ownership guard, entity absent\<close>
  | OrderAbsent           \<comment> \<open>no order for the given id\<close>
  | UserAbsent            \<comment> \<open>no user for the given id\<close>
  | InvalidOrderId
  | ProductMissing oid
  | ProductNotForSale oid
  | WrongOrderTotal
  | SchemaValidation      \<comment> \<open>the message of a Mongoose ValidationError\<close>
  | EmailTaken

text \<open>
  The application's error classes carry a status code; the errors of the libraries
  (jsonwebtoken, the MongoDB driver, the JavaScript runtime) carry none.
\<close>

datatype error =
    BadRequestError message
  | UnauthorizedError message
  | ForbiddenError message
  | NotFoundError message
  | ConflictError message
  | ValidationError
  | JsonWebTokenError
  | TokenExpiredError
  | TypeError
  | DuplicateKeyError

text \<open>The error handler: \<open>err.statusCode || 500\<close>.\<close>

fun statusCode :: "error \<Rightarrow> nat" where
  "statusCode (BadRequestError m) = 400"
| "statusCode (UnauthorizedError m) = 401"
| "statusCode (ForbiddenError m) = 403"
| "statusCode (NotFoundError m) = 404"
| "statusCode (ConflictError m) = 409"
| "statusCode e = 500"

record 'a user =
  u_name :: string
  u_email :: string
  u_password :: string
  u_tokens :: "string list"         \<comment> \<open>the \<open>token\<close> fields of the token sub-documents\<close>
  u_roles :: "Role list"
  u_phone :: "string option"
  u_totalAmount :: 'a
  u_orderCount :: nat
  u_orders :: "oid list"
  u_lastOrderDate :: "date option"
  u_lastOrder :: "oid option"

type_synonym 'a user_doc = "oid \<times> 'a user"

record 'a order =
  o_id :: oid
  o_orderNumber :: "nat option"     \<comment> \<open>unset until the pre-save hook runs\<close>
  o_status :: StatusType
  o_totalAmount :: 'a
  o_products :: "oid list"
  o_payment :: string
  o_customer :: "oid option"        \<comment> \<open>\<open>null\<close> when populate found no such user\<close>
  o_deliveryAddress :: "string option"
  o_email :: string
  o_phone :: string
  o_comment :: "string option"
  o_createdAt :: date

record 'a product =
  p_id :: oid
  p_title :: string
  p_price :: "'a option"            \<comment> \<open>\<open>null\<close>: not for sale\<close>

text \<open>
  The database. Every collection is kept in insertion order, which is the order an
  unsorted query or aggregation reads it in; a user document is the pair of its \<open>_id\<close>
  and its fields. The counter collection holds at most one document. \<open>db_statsRuns\<close>
  is not data of the store: it records, in order, the user ids \<open>calculateOrderStats\<close>
  has run for, so that "is triggered" can be stated.
\<close>

record 'a db =
  db_users :: "(oid \<times> 'a user) list"
  db_orders :: "'a order list"
  db_products :: "'a product list"
  db_counter :: "nat option"
  db_statsRuns :: "oid list"

section \<open>Configuration and libraries\<close>

text \<open>
  A JSON Web Token is modelled by what determines it: the key it was signed with and its
  claims (HS256 is deterministic, and \<open>iat\<close> and \<open>exp\<close> are whole seconds). A raw token
  string is either such a token or some other string.
\<close>

record jwt =
  jwt_key :: string
  jwt_id :: oid                     \<comment> \<open>the \<open>_id\<close> claim\<close>
  jwt_email :: "string option"
  jwt_sub :: oid
  jwt_iat :: nat
  jwt_exp :: nat

datatype rawtoken = Garbage string | Jwt jwt

text \<open>
  The configuration module and the library functions the code calls but does not define:
  the keyed hash \<open>crypto.createHmac('sha256', key).update(t).digest('hex')\<close>,
  \<open>bcrypt.hash\<close> (with the salt it draws), \<open>validator.isEmail\<close> and the phone pattern.
  They are parameters; nothing is assumed of them.
\<close>

record env =
  ACCESS_TOKEN_secret :: string
  ACCESS_TOKEN_expiry :: nat
  REFRESH_TOKEN_secret :: string
  REFRESH_TOKEN_expiry :: nat
  saltRounds :: nat
  createHmac :: "string \<Rightarrow> rawtoken \<Rightarrow> string"
  bcrypt_hash :: "string \<Rightarrow> nat \<Rightarrow> string"
  isEmail :: "string \<Rightarrow> bool"
  phoneRegExp_test :: "string \<Rightarrow> bool"

text \<open>\<open>jwt.sign(payload, secret, {expiresIn, subject})\<close> at clock second \<open>now\<close>.\<close>

definition jwt_sign :: "oid \<Rightarrow> string option \<Rightarrow> string \<Rightarrow> nat \<Rightarrow> oid \<Rightarrow> nat \<Rightarrow> jwt" where
  "jwt_sign ident mail secret expiresIn subject now =
     \<lparr>jwt_key = secret, jwt_id = ident, jwt_email = mail, jwt_sub = subject,
      jwt_iat = now, jwt_exp = now + expiresIn\<rparr>"

text \<open>
  \<open>jwt.verify(token, secret)\<close>: a string that is no token, or a token signed with another
  key, raises JsonWebTokenError; a token at or past its expiry raises TokenExpiredError.
\<close>

fun jwt_verify :: "rawtoken \<Rightarrow> string \<Rightarrow> nat \<Rightarrow> error + jwt" where
  "jwt_verify (Garbage s) secret now = Inl JsonWebTokenError"
| "jwt_verify (Jwt t) secret now =
     (if jwt_key t \<noteq> secret then Inl JsonWebTokenError
      else if jwt_exp t \<le> now then Inl TokenExpiredError
      else Inr t)"

section \<open>Session middleware and guards\<close>

text \<open>
  The Authorization header: absent, present without the \<open>Bearer \<close> prefix, or
  \<open>Bearer \<close> followed by a raw token.
\<close>

datatype authorization = OtherScheme string | Bearer rawtoken

text \<open>
  \<open>auth\<close>: the result is the error (thrown for a bad header, passed to \<open>next\<close> otherwise)
  or the user stored in \<open>res.locals.user\<close>. The \<open>sub\<close> claim of a token is an ObjectId,
  as in every token the server signs.
\<close>

definition auth :: "env \<Rightarrow> nat \<Rightarrow> authorization option \<Rightarrow> 'a db \<Rightarrow> error + 'a user_doc" where
  "auth cfg now authHeader db =
     (case authHeader of
        None \<Rightarrow> Inl (UnauthorizedError InvalidToken)
      | Some (OtherScheme s) \<Rightarrow> Inl (UnauthorizedError InvalidToken)
      | Some (Bearer aTkn) \<Rightarrow>
          (case jwt_verify aTkn (ACCESS_TOKEN_secret cfg) now of
             Inl TokenExpiredError \<Rightarrow> Inl (UnauthorizedError TokenLifetimeOver)
           | Inl e \<Rightarrow> Inl (UnauthorizedError AuthorizationNeeded)
           | Inr payload \<Rightarrow>
               (case map_of (db_users db) (jwt_sub payload) of
                  None \<Rightarrow> Inl (ForbiddenError NoAccess)
                | Some user \<Rightarrow> Inr (jwt_sub payload, user))))"

text \<open>\<open>roleGuardMiddleware(...roles)\<close> applied to \<open>res.locals.user\<close>.\<close>

definition roleGuardMiddleware :: "Role list \<Rightarrow> 'a user_doc option \<Rightarrow> error + unit" where
  "roleGuardMiddleware required locals_user =
     (case locals_user of
        None \<Rightarrow> Inl (UnauthorizedError AuthorizationNeeded)
      | Some (uid, user) \<Rightarrow>
          (let hasAccess = list_ex (\<lambda>role. role \<in> set (u_roles user)) required
           in if \<not> hasAccess then Inl (ForbiddenError AccessDenied) else Inr ()))"

text \<open>
  \<open>currentUserAccessMiddleware(model, idProperty, userProperty)\<close>: the model is given by
  its \<open>findById\<close>, the owner field by its selector (the field may hold \<open>null\<close>, which
  equals no id).
\<close>

definition currentUserAccessMiddleware ::
    "(oid \<Rightarrow> 'e option) \<Rightarrow> ('e \<Rightarrow> oid option) \<Rightarrow> oid \<Rightarrow> 'a user_doc option \<Rightarrow>
       error + unit" where
  "currentUserAccessMiddleware findById userProperty ident locals_user =
     (case locals_user of
        None \<Rightarrow> Inl (UnauthorizedError AuthorizationNeeded)
      | Some (uid, user) \<Rightarrow>
          if Admin \<in> set (u_roles user) then Inr ()
          else (case findById ident of
                  None \<Rightarrow> Inl (NotFoundError NotFoundPlain)
                | Some entity \<Rightarrow>
                    (let hasAccess = (Some uid = userProperty entity)
                     in if \<not> hasAccess then Inl (ForbiddenError AccessDenied) else Inr ())))"

section \<open>Credential store\<close>

text \<open>Replacing the fields of the stored document with a given \<open>_id\<close>.\<close>

definition update_doc :: "oid \<Rightarrow> ('u \<Rightarrow> 'u) \<Rightarrow> (oid \<times> 'u) list \<Rightarrow> (oid \<times> 'u) list" where
  "update_doc ident f docs = map (\<lambda>(i, u). if i = ident then (i, f u) else (i, u)) docs"

text \<open>The pre-save hook \<open>hashingPassword\<close>; the flag is \<open>this.isModified('password')\<close>.\<close>

definition hashingPassword :: "env \<Rightarrow> bool \<Rightarrow> 'a user \<Rightarrow> 'a user" where
  "hashingPassword cfg passwordModified user =
     (if passwordModified
      then user\<lparr>u_password := bcrypt_hash cfg (u_password user) (saltRounds cfg)\<rparr>
      else user)"

text \<open>
  The validators of the user schema, on the paths a document holds: the name has
  between 2 and 30 characters; \<open>email\<close> is required and must satisfy
  \<open>validator.isEmail\<close>; \<open>password\<close> is required and has at least 6 characters; the
  \<open>token\<close> of every token sub-document is required. The password is excluded from
  queries (\<open>select: false\<close>), so a document loaded without it is validated without it:
  \<open>withPassword\<close> tells whether the document holds the path. The roles of the model are
  values of the enum, so the enum validator of \<open>roles\<close> holds of every document.
\<close>

definition user_validate :: "env \<Rightarrow> bool \<Rightarrow> 'a user \<Rightarrow> bool" where
  "user_validate cfg withPassword user \<longleftrightarrow>
     2 \<le> length (u_name user) \<and> length (u_name user) \<le> 30 \<and>
     u_email user \<noteq> [] \<and> isEmail cfg (u_email user) \<and>
     (withPassword \<longrightarrow> u_password user \<noteq> [] \<and> 6 \<le> length (u_password user)) \<and>
     (\<forall>token\<in>set (u_tokens user). token \<noteq> [])"

text \<open>
  \<open>user.save()\<close> on a document that is in the store: the document is validated, and a
  ValidationError is raised if it fails; then the hook runs (the password was not
  modified) and the document's fields are written back.
\<close>

definition user_save :: "env \<Rightarrow> bool \<Rightarrow> 'a user_doc \<Rightarrow> 'a db \<Rightarrow> error + 'a db" where
  "user_save cfg withPassword doc db =
     (if \<not> user_validate cfg withPassword (snd doc) then Inl ValidationError
      else Inr (db\<lparr>db_users :=
                     update_doc (fst doc) (\<lambda>stored. hashingPassword cfg False (snd doc))
                       (db_users db)\<rparr>))"

text \<open>
  The \<open>toJSON\<close> transform of the user schema, as the list of the keys and values of the
  serialized object: the fields of the document and the virtual \<open>id\<close>, without
  \<open>tokens\<close>, \<open>password\<close>, \<open>_id\<close> and \<open>roles\<close>. (The two timestamps Mongoose maintains
  are not part of the model.)
\<close>

datatype 'a json =
    JNull | JString string | JNumber 'a | JCount nat | JId oid | JDate date
  | JArray "'a json list"

definition json_opt :: "('x \<Rightarrow> 'a json) \<Rightarrow> 'x option \<Rightarrow> 'a json" where
  "json_opt f v = (case v of None \<Rightarrow> JNull | Some x \<Rightarrow> f x)"

definition toJSON :: "'a user_doc \<Rightarrow> (string \<times> 'a json) list" where
  "toJSON doc =
     (let ret =
        [(''_id'', JId (fst doc)),
         (''name'', JString (u_name (snd doc))),
         (''email'', JString (u_email (snd doc))),
         (''password'', JString (u_password (snd doc))),
         (''tokens'', JArray (map JString (u_tokens (snd doc)))),
         (''roles'', JArray (map (\<lambda>r. JString (case r of Customer \<Rightarrow> ''customer''
                                                         | Admin \<Rightarrow> ''admin''))
                              (u_roles (snd doc))))] @
        (case u_phone (snd doc) of None \<Rightarrow> [] | Some p \<Rightarrow> [(''phone'', JString p)]) @
        [(''lastOrderDate'', json_opt JDate (u_lastOrderDate (snd doc))),
         (''lastOrder'', json_opt JId (u_lastOrder (snd doc))),
         (''totalAmount'', JNumber (u_totalAmount (snd doc))),
         (''orderCount'', JCount (u_orderCount (snd doc))),
         (''orders'', JArray (map JId (u_orders (snd doc)))),
         (''id'', JId (fst doc))]
      in filter (\<lambda>(k, v). k \<notin> {''tokens'', ''password'', ''_id'', ''roles''}) ret)"

section \<open>Token service\<close>

definition generateAccessToken :: "env \<Rightarrow> nat \<Rightarrow> 'a user_doc \<Rightarrow> rawtoken" where
  "generateAccessToken cfg now doc =
     Jwt (jwt_sign (fst doc) (Some (u_email (snd doc))) (ACCESS_TOKEN_secret cfg)
            (ACCESS_TOKEN_expiry cfg) (fst doc) now)"

text \<open>
  \<open>generateRefreshToken\<close>: signs the token, pushes its keyed hash onto \<open>tokens\<close>, saves
  the user and returns the raw token (with the document as it now is). The save can
  raise a ValidationError, and then nothing is stored.
\<close>

definition generateRefreshToken ::
    "env \<Rightarrow> nat \<Rightarrow> bool \<Rightarrow> 'a user_doc \<Rightarrow> 'a db \<Rightarrow> (error + rawtoken \<times> 'a user_doc) \<times> 'a db" where
  "generateRefreshToken cfg now withPassword doc db =
     (let refreshToken = Jwt (jwt_sign (fst doc) None (REFRESH_TOKEN_secret cfg)
                                (REFRESH_TOKEN_expiry cfg) (fst doc) now);
          rTknHash = createHmac cfg (REFRESH_TOKEN_secret cfg) refreshToken;
          doc' = (fst doc, (snd doc)\<lparr>u_tokens := u_tokens (snd doc) @ [rTknHash]\<rparr>)
      in (case user_save cfg withPassword doc' db of
            Inl e \<Rightarrow> (Inl e, db)
          | Inr db' \<Rightarrow> (Inr (refreshToken, doc'), db')))"

text \<open>
  \<open>deleteRefreshTokenInUser\<close>, on the value of the \<open>refreshToken\<close> cookie (absent, or a
  raw string; the empty string is falsy). The user is loaded without the password. The
  result is the error thrown or the user document, with the database as the call leaves
  it.
\<close>

definition deleteRefreshTokenInUser ::
    "env \<Rightarrow> nat \<Rightarrow> rawtoken option \<Rightarrow> 'a db \<Rightarrow> (error + 'a user_doc) \<times> 'a db" where
  "deleteRefreshTokenInUser cfg now cookie db =
     (case cookie of
        None \<Rightarrow> (Inl (UnauthorizedError TokenNotValid), db)
      | Some rfTkn \<Rightarrow>
          if rfTkn = Garbage [] then (Inl (UnauthorizedError TokenNotValid), db)
          else (case jwt_verify rfTkn (REFRESH_TOKEN_secret cfg) now of
                  Inl e \<Rightarrow> (Inl e, db)
                | Inr decodedRefreshTkn \<Rightarrow>
                    (case map_of (db_users db) (jwt_id decodedRefreshTkn) of
                       None \<Rightarrow> (Inl (UnauthorizedError UserNotInBase), db)
                     | Some user \<Rightarrow>
                         (let rTknHash = createHmac cfg (REFRESH_TOKEN_secret cfg) rfTkn;
                              doc = (jwt_id decodedRefreshTkn,
                                     user\<lparr>u_tokens :=
                                            filter (\<lambda>tokenObj. tokenObj \<noteq> rTknHash)
                                              (u_tokens user)\<rparr>)
                          in (case user_save cfg False doc db of
                                Inl e \<Rightarrow> (Inl e, db)
                              | Inr db' \<Rightarrow> (Inr doc, db'))))))"

text \<open>\<open>logout\<close>: the result is the error or the new value of the cookie (the empty string).\<close>

definition logout :: "env \<Rightarrow> nat \<Rightarrow> rawtoken option \<Rightarrow> 'a db \<Rightarrow> (error + rawtoken) \<times> 'a db" where
  "logout cfg now cookie db =
     (case deleteRefreshTokenInUser cfg now cookie db of
        (Inl e, db') \<Rightarrow> (Inl e, db')
      | (Inr doc, db') \<Rightarrow> (Inr (Garbage []), db'))"

text \<open>The body and the cookie of a response that carries fresh tokens.\<close>

record 'a token_response =
  r_user :: "'a user_doc"
  r_accessToken :: rawtoken
  r_cookie :: rawtoken

definition refreshAccessToken ::
    "env \<Rightarrow> nat \<Rightarrow> rawtoken option \<Rightarrow> 'a db \<Rightarrow> (error + 'a token_response) \<times> 'a db" where
  "refreshAccessToken cfg now cookie db =
     (case deleteRefreshTokenInUser cfg now cookie db of
        (Inl e, db') \<Rightarrow> (Inl e, db')
      | (Inr userWithRefreshTkn, db') \<Rightarrow>
          (let accessToken = generateAccessToken cfg now userWithRefreshTkn
           in (case generateRefreshToken cfg now False userWithRefreshTkn db' of
                 (Inl e, db'') \<Rightarrow> (Inl e, db'')
               | (Inr (refreshToken, doc), db'') \<Rightarrow>
                   (Inr \<lparr>r_user = doc, r_accessToken = accessToken, r_cookie = refreshToken\<rparr>,
                    db''))))"

text \<open>
  \<open>register\<close>: a new user with the schema's defaults is validated (a ValidationError
  becomes a BadRequest), its password hashed by the hook, and inserted unless the unique
  index on \<open>email\<close> (or \<open>_id\<close>) refuses it; then the tokens are issued, the document
  holding its password. \<open>ident\<close> is the ObjectId the new document draws. An email or
  password that the body lacks is the empty string here, which the \<open>required\<close>
  validator refuses as it refuses an absent value; the default name is spelled in
  Latin letters, of which it has as many.
\<close>

record register_body =
  rb_email :: string
  rb_password :: string
  rb_name :: "string option"

definition register ::
    "env \<Rightarrow> nat \<Rightarrow> oid \<Rightarrow> register_body \<Rightarrow> ('a::zero) db \<Rightarrow> (error + 'a token_response) \<times> 'a db" where
  "register cfg now ident body db =
     (let newUser =
        \<lparr>u_name = (case rb_name body of None \<Rightarrow> ''Evlampiy'' | Some n \<Rightarrow> n),
         u_email = rb_email body, u_password = rb_password body, u_tokens = [],
         u_roles = [Customer], u_phone = None, u_totalAmount = 0, u_orderCount = 0,
         u_orders = [], u_lastOrderDate = None, u_lastOrder = None\<rparr>
      in if \<not> user_validate cfg True newUser then (Inl (BadRequestError SchemaValidation), db)
         else if ident \<in> fst ` set (db_users db) \<or>
                 list_ex (\<lambda>(i, u). u_email u = u_email newUser) (db_users db)
         then (Inl (ConflictError EmailTaken), db)
         else (let doc = (ident, hashingPassword cfg True newUser);
                   db1 = db\<lparr>db_users := db_users db @ [doc]\<rparr>;
                   accessToken = generateAccessToken cfg now doc
               in (case generateRefreshToken cfg now True doc db1 of
                     (Inl ValidationError, db2) \<Rightarrow> (Inl (BadRequestError SchemaValidation), db2)
                   | (Inl e, db2) \<Rightarrow> (Inl e, db2)
                   | (Inr (refreshToken, doc'), db2) \<Rightarrow>
                       (Inr \<lparr>r_user = doc', r_accessToken = accessToken,
                             r_cookie = refreshToken\<rparr>,
                        db2))))"

text \<open>
  \<open>updateCurrentUser\<close> and \<open>updateCustomer\<close>: \<open>User.findByIdAndUpdate(id, req.body)\<close>.
  The body is any object; the fields of it that the schema knows are set on the stored
  document. A query update runs no save hook and, without \<open>runValidators\<close>, no validator;
  only the unique index on \<open>email\<close> can refuse it.
\<close>

record 'a user_body =
  ub_name :: "string option"
  ub_email :: "string option"
  ub_password :: "string option"
  ub_tokens :: "string list option"
  ub_roles :: "Role list option"
  ub_phone :: "string option"
  ub_totalAmount :: "'a option"
  ub_orderCount :: "nat option"
  ub_orders :: "oid list option"
  ub_lastOrderDate :: "date option option"
  ub_lastOrder :: "oid option option"

definition set_field :: "'x option \<Rightarrow> ('x \<Rightarrow> 'u \<Rightarrow> 'u) \<Rightarrow> 'u \<Rightarrow> 'u" where
  "set_field v setter u = (case v of None \<Rightarrow> u | Some x \<Rightarrow> setter x u)"

definition apply_user_body :: "'a user_body \<Rightarrow> 'a user \<Rightarrow> 'a user" where
  "apply_user_body body =
     set_field (ub_name body) (\<lambda>x u. u\<lparr>u_name := x\<rparr>) \<circ>
     set_field (ub_email body) (\<lambda>x u. u\<lparr>u_email := x\<rparr>) \<circ>
     set_field (ub_password body) (\<lambda>x u. u\<lparr>u_password := x\<rparr>) \<circ>
     set_field (ub_tokens body) (\<lambda>x u. u\<lparr>u_tokens := x\<rparr>) \<circ>
     set_field (ub_roles body) (\<lambda>x u. u\<lparr>u_roles := x\<rparr>) \<circ>
     set_field (ub_phone body) (\<lambda>x u. u\<lparr>u_phone := Some x\<rparr>) \<circ>
     set_field (ub_totalAmount body) (\<lambda>x u. u\<lparr>u_totalAmount := x\<rparr>) \<circ>
     set_field (ub_orderCount body) (\<lambda>x u. u\<lparr>u_orderCount := x\<rparr>) \<circ>
     set_field (ub_orders body) (\<lambda>x u. u\<lparr>u_orders := x\<rparr>) \<circ>
     set_field (ub_lastOrderDate body) (\<lambda>x u. u\<lparr>u_lastOrderDate := x\<rparr>) \<circ>
     set_field (ub_lastOrder body) (\<lambda>x u. u\<lparr>u_lastOrder := x\<rparr>)"

definition User_findByIdAndUpdate ::
    "oid \<Rightarrow> 'a user_body \<Rightarrow> 'a db \<Rightarrow> (error + 'a user_doc) \<times> 'a db" where
  "User_findByIdAndUpdate ident body db =
     (case map_of (db_users db) ident of
        None \<Rightarrow> (Inl (NotFoundError UserAbsent), db)
      | Some user \<Rightarrow>
          if list_ex (\<lambda>(i, u). i \<noteq> ident \<and> Some (u_email u) = ub_email body) (db_users db)
          then (Inl DuplicateKeyError, db)
          else (Inr (ident, apply_user_body body user),
                db\<lparr>db_users := update_doc ident (apply_user_body body) (db_users db)\<rparr>))"

definition updateCurrentUser ::
    "'a user_doc \<Rightarrow> 'a user_body \<Rightarrow> 'a db \<Rightarrow> (error + 'a user_doc) \<times> 'a db" where
  "updateCurrentUser locals_user body db = User_findByIdAndUpdate (fst locals_user) body db"

definition updateCustomer ::
    "oid \<Rightarrow> 'a user_body \<Rightarrow> 'a db \<Rightarrow> (error + 'a user_doc) \<times> 'a db" where
  "updateCustomer ident body db = User_findByIdAndUpdate ident body db"

section \<open>Sequence generator and statistics\<close>

text \<open>
  \<open>Counter.findOneAndUpdate({}, {$inc: {sequenceValue: 1}}, {new: true, upsert: true})\<close>:
  the counter document is created on first use; the new value is returned.
\<close>

definition Counter_findOneAndUpdate :: "'a db \<Rightarrow> nat \<times> 'a db" where
  "Counter_findOneAndUpdate db =
     (let sequenceValue = (case db_counter db of None \<Rightarrow> 1 | Some n \<Rightarrow> n + 1)
      in (sequenceValue, db\<lparr>db_counter := Some sequenceValue\<rparr>))"

text \<open>The pre-save hook of an order; the flag is \<open>order.isNew\<close>.\<close>

definition incrementOrderNumber :: "bool \<Rightarrow> 'a order \<Rightarrow> 'a db \<Rightarrow> 'a order \<times> 'a db" where
  "incrementOrderNumber isNew order db =
     (if isNew
      then (let (sequenceValue, db') = Counter_findOneAndUpdate db
            in (order\<lparr>o_orderNumber := Some sequenceValue\<rparr>, db'))
      else (order, db))"

text \<open>
  The aggregation of \<open>calculateOrderStats\<close>: the orders of the customer, grouped into
  one document; no document when the customer has no order.
\<close>

record 'a orderStats =
  s_totalAmount :: 'a
  s_lastOrderDate :: date
  s_orderCount :: nat
  s_lastOrder :: oid

definition aggregateOrderStats :: "oid \<Rightarrow> ('a::{zero,plus}) order list \<Rightarrow> 'a orderStats list" where
  "aggregateOrderStats uid orders =
     (let matched = filter (\<lambda>d. o_customer d = Some uid) orders
      in if matched = [] then []
         else [\<lparr>s_totalAmount = foldl (+) 0 (map o_totalAmount matched),
                s_lastOrderDate = Max (set (map o_createdAt matched)),
                s_orderCount = length matched,
                s_lastOrder = o_id (last matched)\<rparr>])"

text \<open>
  \<open>calculateOrderStats\<close> on a user document \<open>doc\<close>, loaded without its password: the
  four statistics fields are assigned from the first document of the aggregation, or
  reset when there is none, and the user is saved. The save validates the document and
  raises a ValidationError if it fails; otherwise it writes the paths that were
  modified: the four fields, and what \<open>doc\<close> carries \<open>unsaved\<close> from its caller. The
  call is recorded in \<open>db_statsRuns\<close> whatever the save does.
\<close>

definition assignStats :: "('a::zero) orderStats list \<Rightarrow> 'a user \<Rightarrow> 'a user" where
  "assignStats orderStats user =
     (case orderStats of
        stats # rest \<Rightarrow>
          user\<lparr>u_totalAmount := s_totalAmount stats,
               u_orderCount := s_orderCount stats,
               u_lastOrderDate := Some (s_lastOrderDate stats),
               u_lastOrder := Some (s_lastOrder stats)\<rparr>
      | [] \<Rightarrow>
          user\<lparr>u_totalAmount := 0, u_orderCount := 0,
               u_lastOrderDate := None, u_lastOrder := None\<rparr>)"

definition calculateOrderStats ::
    "env \<Rightarrow> ('a::{zero,plus}) user_doc \<Rightarrow> ('a user \<Rightarrow> 'a user) \<Rightarrow> 'a db \<Rightarrow> (error + unit) \<times> 'a db" where
  "calculateOrderStats cfg doc unsaved db =
     (let orderStats = aggregateOrderStats (fst doc) (db_orders db);
          user = assignStats orderStats (snd doc);
          called = db\<lparr>db_statsRuns := db_statsRuns db @ [fst doc]\<rparr>
      in if \<not> user_validate cfg False user then (Inl ValidationError, called)
         else (Inr (),
               called\<lparr>db_users :=
                        update_doc (fst doc) (\<lambda>stored. assignStats orderStats (unsaved stored))
                          (db_users db)\<rparr>))"

text \<open>
  The post-save hook of an order: the customer is looked up; if there is one, the order
  is pushed onto its \<open>orders\<close> and its statistics are recomputed. The hook does not
  wait for the recomputation (the model runs it to its end), so an error of its save
  reaches no one: then neither the push nor the statistics are stored.
\<close>

definition updateUserStats_save :: "env \<Rightarrow> ('a::{zero,plus}) order \<Rightarrow> 'a db \<Rightarrow> 'a db" where
  "updateUserStats_save cfg doc db =
     (case o_customer doc of
        None \<Rightarrow> db
      | Some customer \<Rightarrow>
          (case map_of (db_users db) customer of
             None \<Rightarrow> db
           | Some user \<Rightarrow>
               snd (calculateOrderStats cfg
                      (customer, user\<lparr>u_orders := u_orders user @ [o_id doc]\<rparr>)
                      (\<lambda>u. u\<lparr>u_orders := u_orders u @ [o_id doc]\<rparr>) db)))"

text \<open>
  The post-findOneAndDelete hook: the order is pulled from its customer's \<open>orders\<close> by a
  query update, which returns the user as it was before; if there is such a user, its
  statistics are recomputed. The hook waits for the recomputation, so an error of its
  save is the error of the deletion.
\<close>

definition updateUserStats_delete ::
    "env \<Rightarrow> ('a::{zero,plus}) order \<Rightarrow> 'a db \<Rightarrow> (error + unit) \<times> 'a db" where
  "updateUserStats_delete cfg order db =
     (case o_customer order of
        None \<Rightarrow> (Inr (), db)
      | Some customer \<Rightarrow>
          (case map_of (db_users db) customer of
             None \<Rightarrow> (Inr (), db)
           | Some user \<Rightarrow>
               calculateOrderStats cfg (customer, user) (\<lambda>u. u)
                 (db\<lparr>db_users :=
                       update_doc customer
                         (\<lambda>u. u\<lparr>u_orders := removeAll (o_id order) (u_orders u)\<rparr>)
                         (db_users db)\<rparr>)))"

section \<open>Order aggregate\<close>

text \<open>
  A field of a request body that the order schema takes for a string: missing, \<open>null\<close>,
  a value with its text (a string, or a number or boolean, which the schema casts to
  its text), or any other value (an object or an array, which does not cast).
\<close>

datatype field = Missing | Null | Text string | Other

text \<open>
  The body of an order request is any object. \<open>b_total\<close> is the total when it is a
  number; \<open>b_items\<close> is the list of items when \<open>items\<close> is an array. An item is taken
  for the ObjectId it denotes; an item that denotes none equals the id of no product,
  as an id that no product has.
\<close>

record 'a order_body =
  b_address :: field
  b_payment :: field
  b_phone :: field
  b_total :: "'a option"
  b_email :: field
  b_items :: "oid list option"
  b_comment :: field

definition field_text :: "field \<Rightarrow> string" where
  "field_text f = (case f of Text s \<Rightarrow> s | _ \<Rightarrow> [])"

definition field_opt :: "field \<Rightarrow> string option" where
  "field_opt f = (case f of Text s \<Rightarrow> Some s | _ \<Rightarrow> None)"

text \<open>
  The validators of the order schema, on the values the new document takes from the
  body: \<open>payment\<close> is required and one of \<open>card\<close> and \<open>online\<close>; \<open>email\<close> and \<open>phone\<close> are
  required and checked; \<open>deliveryAddress\<close> and \<open>comment\<close> must cast to a string if they
  are there. (\<open>totalAmount\<close> is required too, and is a number where the document is
  built.)
\<close>

definition order_validate :: "env \<Rightarrow> 'a order_body \<Rightarrow> bool" where
  "order_validate cfg body \<longleftrightarrow>
     (case b_payment body of Text s \<Rightarrow> s = ''card'' \<or> s = ''online'' | _ \<Rightarrow> False) \<and>
     (case b_email body of Text s \<Rightarrow> s \<noteq> [] \<and> isEmail cfg s | _ \<Rightarrow> False) \<and>
     (case b_phone body of Text s \<Rightarrow> s \<noteq> [] \<and> phoneRegExp_test cfg s | _ \<Rightarrow> False) \<and>
     b_address body \<noteq> Other \<and> b_comment body \<noteq> Other"

text \<open>
  \<open>save()\<close> of the new order built from \<open>body\<close>: validation, the pre-save hook, the
  insertion (refused by the unique indexes on \<open>_id\<close> and \<open>orderNumber\<close>), the post-save
  hook.
\<close>

definition order_save ::
    "env \<Rightarrow> 'a order_body \<Rightarrow> ('a::{zero,plus}) order \<Rightarrow> 'a db \<Rightarrow> (error + 'a order) \<times> 'a db" where
  "order_save cfg body newOrder db =
     (if \<not> order_validate cfg body then (Inl ValidationError, db)
      else (let (doc, db1) = incrementOrderNumber True newOrder db
            in if o_id doc \<in> set (map o_id (db_orders db1)) \<or>
                  o_orderNumber doc \<in> set (map o_orderNumber (db_orders db1))
               then (Inl DuplicateKeyError, db1)
               else (Inr doc,
                     updateUserStats_save cfg doc (db1\<lparr>db_orders := db_orders db1 @ [doc]\<rparr>))))"

text \<open>
  The loop over \<open>items\<close> that fills the basket: the first id that names no product, or a
  product without a price, throws.
\<close>

fun fill_basket :: "'a product list \<Rightarrow> oid list \<Rightarrow> 'a product list \<Rightarrow> error + 'a product list" where
  "fill_basket products [] basket = Inr basket"
| "fill_basket products (ident # items) basket =
     (case find (\<lambda>p. p_id p = ident) products of
        None \<Rightarrow> Inl (BadRequestError (ProductMissing ident))
      | Some product \<Rightarrow>
          (case p_price product of
             None \<Rightarrow> Inl (BadRequestError (ProductNotForSale ident))
           | Some price \<Rightarrow> fill_basket products items (basket @ [product])))"

text \<open>\<open>basket.reduce((a, c) => a + c.price, 0)\<close>; no product of the basket lacks a price.\<close>

definition totalBasket :: "('a::{zero,plus}) product list \<Rightarrow> 'a" where
  "totalBasket basket =
     foldl (\<lambda>a c. case p_price c of Some price \<Rightarrow> a + price | None \<Rightarrow> a) 0 basket"

text \<open>
  \<open>createOrder\<close> for the authenticated user \<open>userId\<close> at clock time \<open>now\<close>; \<open>ident\<close> is the
  ObjectId the new document draws. Calling \<open>forEach\<close> on \<open>items\<close> that is no array is a
  TypeError. A total that is no number is not strictly equal to the total of the basket.
  Before the save the customer is populated: the path holds \<open>null\<close> if there is no such
  user.
\<close>

definition createOrder ::
    "env \<Rightarrow> date \<Rightarrow> oid \<Rightarrow> oid \<Rightarrow> ('a::{zero,plus}) order_body \<Rightarrow> 'a db \<Rightarrow> (error + 'a order) \<times> 'a db" where
  "createOrder cfg now ident userId body db =
     (case b_items body of
        None \<Rightarrow> (Inl TypeError, db)
      | Some items \<Rightarrow>
          (case fill_basket (db_products db) items [] of
             Inl e \<Rightarrow> (Inl e, db)
           | Inr basket \<Rightarrow>
               (case b_total body of
                  None \<Rightarrow> (Inl (BadRequestError WrongOrderTotal), db)
                | Some declared \<Rightarrow>
                    if totalBasket basket \<noteq> declared
                    then (Inl (BadRequestError WrongOrderTotal), db)
                    else (let newOrder =
                            \<lparr>o_id = ident, o_orderNumber = None, o_status = New,
                             o_totalAmount = declared, o_products = items,
                             o_payment = field_text (b_payment body),
                             o_customer = (case map_of (db_users db) userId of
                                             None \<Rightarrow> None
                                           | Some user \<Rightarrow> Some userId),
                             o_deliveryAddress = field_opt (b_address body),
                             o_email = field_text (b_email body),
                             o_phone = field_text (b_phone body),
                             o_comment = (case b_comment body of
                                            Missing \<Rightarrow> Some []
                                          | c \<Rightarrow> field_opt c),
                             o_createdAt = now\<rparr>
                          in (case order_save cfg body newOrder db of
                                (Inl ValidationError, db') \<Rightarrow>
                                  (Inl (BadRequestError SchemaValidation), db')
                              | (Inl e, db') \<Rightarrow> (Inl e, db')
                              | (Inr populateOrder, db') \<Rightarrow> (Inr populateOrder, db'))))))"

text \<open>The values of the status enum.\<close>

definition StatusType_of :: "string \<Rightarrow> StatusType option" where
  "StatusType_of s =
     (if s = ''cancelled'' then Some Cancelled
      else if s = ''completed'' then Some Completed
      else if s = ''new'' then Some New
      else if s = ''delivering'' then Some Delivering
      else None)"

fun update_first :: "('x \<Rightarrow> bool) \<Rightarrow> ('x \<Rightarrow> 'x) \<Rightarrow> 'x list \<Rightarrow> 'x list" where
  "update_first P f [] = []"
| "update_first P f (x # xs) = (if P x then f x # xs else x # update_first P f xs)"

text \<open>
  \<open>updateOrder\<close>: \<open>Order.findOneAndUpdate({orderNumber}, {status}, {runValidators})\<close>.
  The route parameter is \<open>None\<close> when it does not cast to a number; the body's status is
  absent or any string. An absent status changes nothing of the order found; a string
  outside the enum fails the update validator.
\<close>

definition updateOrder ::
    "nat option \<Rightarrow> string option \<Rightarrow> 'a db \<Rightarrow> (error + 'a order) \<times> 'a db" where
  "updateOrder orderNumber status db =
     (case orderNumber of
        None \<Rightarrow> (Inl (BadRequestError InvalidOrderId), db)
      | Some n \<Rightarrow>
          (case (case status of None \<Rightarrow> Some (\<lambda>order. order)
                 | Some s \<Rightarrow> map_option (\<lambda>st order. order\<lparr>o_status := st\<rparr>) (StatusType_of s)) of
             None \<Rightarrow> (Inl (BadRequestError SchemaValidation), db)
           | Some change \<Rightarrow>
               (case find (\<lambda>d. o_orderNumber d = Some n) (db_orders db) of
                  None \<Rightarrow> (Inl (NotFoundError OrderAbsent), db)
                | Some order \<Rightarrow>
                    (Inr (change order),
                     db\<lparr>db_orders :=
                          update_first (\<lambda>d. o_orderNumber d = Some n) change (db_orders db)\<rparr>))))"

text \<open>
  \<open>deleteOrder\<close>: \<open>Order.findByIdAndDelete(id)\<close> and its hook. The route parameter is
  \<open>None\<close> when it does not cast to an ObjectId. An error of the hook comes after the
  order is gone.
\<close>

definition deleteOrder ::
    "env \<Rightarrow> oid option \<Rightarrow> ('a::{zero,plus}) db \<Rightarrow> (error + 'a order) \<times> 'a db" where
  "deleteOrder cfg ident db =
     (case ident of
        None \<Rightarrow> (Inl (BadRequestError InvalidOrderId), db)
      | Some i \<Rightarrow>
          (case find (\<lambda>d. o_id d = i) (db_orders db) of
             None \<Rightarrow> (Inl (NotFoundError OrderAbsent), db)
           | Some deletedOrder \<Rightarrow>
               (case updateUserStats_delete cfg deletedOrder
                       (db\<lparr>db_orders := remove1 deletedOrder (db_orders db)\<rparr>) of
                  (Inl e, db') \<Rightarrow> (Inl e, db')
                | (Inr done, db') \<Rightarrow> (Inr deletedOrder, db'))))"

text \<open>
  \<open>getOrderCurrentUserByNumber\<close> for the authenticated user \<open>userId\<close>. The customer is
  populated from the users; reading \<open>_id\<close> of a customer that is \<open>null\<close> or gone is a
  TypeError.
\<close>

definition getOrderCurrentUserByNumber ::
    "oid \<Rightarrow> nat option \<Rightarrow> 'a db \<Rightarrow> error + 'a order" where
  "getOrderCurrentUserByNumber userId orderNumber db =
     (case orderNumber of
        None \<Rightarrow> Inl (BadRequestError InvalidOrderId)
      | Some n \<Rightarrow>
          (case find (\<lambda>d. o_orderNumber d = Some n) (db_orders db) of
             None \<Rightarrow> Inl (NotFoundError OrderAbsent)
           | Some order \<Rightarrow>
               (case Option.bind (o_customer order) (map_of (db_users db)) of
                  None \<Rightarrow> Inl TypeError
                | Some customer \<Rightarrow>
                    if o_customer order \<noteq> Some userId then Inl (NotFoundError OrderAbsent)
                    else Inr order)))"

text \<open>\<open>Order.findById\<close>, the model lookup the ownership guard is given for orders.\<close>

definition Order_findById :: "'a db \<Rightarrow> oid \<Rightarrow> 'a order option" where
  "Order_findById db ident = find (\<lambda>d. o_id d = ident) (db_orders db)"

section \<open>Predicates of the specification\<close>

text \<open>An outcome that is a failure of kind NotFound or Unauthorized.\<close>

definition fails_NotFound_or_Unauthorized :: "error + 'r \<Rightarrow> bool" where
  "fails_NotFound_or_Unauthorized outcome =
     (case outcome of
        Inl (NotFoundError m) \<Rightarrow> True
      | Inl (UnauthorizedError m) \<Rightarrow> True
      | _ \<Rightarrow> False)"

text \<open>An outcome that is a failure of kind BadRequest.\<close>

definition fails_BadRequest :: "error + 'r \<Rightarrow> bool" where
  "fails_BadRequest outcome = (case outcome of Inl (BadRequestError m) \<Rightarrow> True | _ \<Rightarrow> False)"

text \<open>
  The prices of the items of a request that resolve to a product with a price, in the
  order of the items, and their sum from \<open>0\<close>.
\<close>

definition resolved_prices :: "'a product list \<Rightarrow> oid list \<Rightarrow> 'a list" where
  "resolved_prices products items =
     concat (map (\<lambda>ident. case find (\<lambda>p. p_id p = ident) products of
                             None \<Rightarrow> []
                           | Some product \<Rightarrow> (case p_price product of None \<Rightarrow> [] | Some x \<Rightarrow> [x]))
                 items)"

definition item_unknown :: "'a product list \<Rightarrow> oid \<Rightarrow> bool" where
  "item_unknown products ident \<longleftrightarrow> find (\<lambda>p. p_id p = ident) products = None"

definition item_not_for_sale :: "'a product list \<Rightarrow> oid \<Rightarrow> bool" where
  "item_not_for_sale products ident \<longleftrightarrow>
     (case find (\<lambda>p. p_id p = ident) products of
        None \<Rightarrow> False
      | Some product \<Rightarrow> p_price product = None)"

text \<open>
  The three conditions on the basket: some item id resolves to no product, or some
  resolved product has no price, or the resolved prices do not add up to the declared
  total (a declared total that is no number equals no sum).
\<close>

definition basket_refused :: "('a::{zero,plus}) product list \<Rightarrow> oid list \<Rightarrow> 'a option \<Rightarrow> bool" where
  "basket_refused products items declared \<longleftrightarrow>
     (\<exists>i\<in>set items. item_unknown products i) \<or>
     (\<exists>i\<in>set items. item_not_for_sale products i) \<or>
     Some (foldl (+) 0 (resolved_prices products items)) \<noteq> declared"

text \<open>The id a new order draws, or the order number it is due, is already in use.\<close>

definition key_taken :: "oid \<Rightarrow> 'a db \<Rightarrow> bool" where
  "key_taken ident db \<longleftrightarrow>
     ident \<in> set (map o_id (db_orders db)) \<or>
     Some (case db_counter db of None \<Rightarrow> 1 | Some n \<Rightarrow> n + 1) \<in>
       set (map o_orderNumber (db_orders db))"

text \<open>
  The statistics of a user are current when they are what aggregating the user's
  orders gives: the sum of the amounts, the number of orders, the last order and the
  latest creation time, and zero and nothing for a user without orders.
\<close>

definition stats_current :: "oid \<Rightarrow> ('a::{zero,plus}) db \<Rightarrow> bool" where
  "stats_current uid db \<longleftrightarrow>
     (case map_of (db_users db) uid of
        None \<Rightarrow> False
      | Some user \<Rightarrow>
          (let own = filter (\<lambda>d. o_customer d = Some uid) (db_orders db)
           in u_totalAmount user = foldl (+) 0 (map o_totalAmount own) \<and>
              u_orderCount user = length own \<and>
              u_lastOrder user = (if own = [] then None else Some (o_id (last own))) \<and>
              u_lastOrderDate user =
                (if own = [] then None else Some (Max (set (map o_createdAt own))))))"

section \<open>A concrete configuration and store\<close>

text \<open>
  A small instance with whole-number amounts, on which the theorems below are exercised:
  toy stand-ins for the keyed hash, the password hash and the two validators; a catalogue
  of three products, one of them not for sale; a customer, an administrator and a second
  customer who owns order number 1. The refresh token \<open>tkn0\<close> was issued to the first
  customer at second 100 and its fingerprint is in that customer's token list.
\<close>

definition cfg0 :: env where
  "cfg0 =
     \<lparr>ACCESS_TOKEN_secret = ''access-key'', ACCESS_TOKEN_expiry = 60,
      REFRESH_TOKEN_secret = ''refresh-key'', REFRESH_TOKEN_expiry = 600,
      saltRounds = 10,
      createHmac = (\<lambda>key t. case t of
                      Garbage s \<Rightarrow> key @ s
                    | Jwt j \<Rightarrow> key @ [char_of (jwt_id j), char_of (jwt_iat j)]),
      bcrypt_hash = (\<lambda>plain rounds. ''$2b$'' @ rev plain),
      isEmail = (\<lambda>s. CHR ''@'' \<in> set s),
      phoneRegExp_test = (\<lambda>s. list_all (\<lambda>c. c \<in> set ''+0123456789 -()'') s)\<rparr>"

definition tkn0 :: jwt where
  "tkn0 = jwt_sign 1 None ''refresh-key'' 600 1 100"

definition user0 :: "int user" where
  "user0 =
     \<lparr>u_name = ''Alice'', u_email = ''alice@example.org'', u_password = ''$2b$6terces'',
      u_tokens = [createHmac cfg0 ''refresh-key'' (Jwt tkn0)], u_roles = [Customer],
      u_phone = None, u_totalAmount = 0, u_orderCount = 0, u_orders = [],
      u_lastOrderDate = None, u_lastOrder = None\<rparr>"

definition carol :: "int user" where
  "carol =
     user0\<lparr>u_name := ''Carol'', u_email := ''carol@example.org'', u_tokens := [],
           u_totalAmount := 10, u_orderCount := 1, u_orders := [50],
           u_lastOrderDate := Some 40, u_lastOrder := Some 50\<rparr>"

definition order0 :: "int order" where
  "order0 =
     \<lparr>o_id = 50, o_orderNumber = Some 1, o_status = New, o_totalAmount = 10,
      o_products = [10], o_payment = ''card'', o_customer = Some 3,
      o_deliveryAddress = Some ''Main St 1'', o_email = ''carol@example.org'',
      o_phone = ''+7 900 000'', o_comment = Some [], o_createdAt = 40\<rparr>"

definition db0 :: "int db" where
  "db0 =
     \<lparr>db_users =
        [(1, user0),
         (2, user0\<lparr>u_name := ''Bob'', u_email := ''bob@example.org'', u_tokens := [],
                  u_roles := [Admin]\<rparr>),
         (3, carol)],
      db_orders = [order0],
      db_products =
        [\<lparr>p_id = 10, p_title = ''Lamp'', p_price = Some 10\<rparr>,
         \<lparr>p_id = 11, p_title = ''Chair'', p_price = Some 20\<rparr>,
         \<lparr>p_id = 12, p_title = ''Vase'', p_price = None\<rparr>],
      db_counter = Some 1,
      db_statsRuns = []\<rparr>"

definition body0 :: "int order_body" where
  "body0 =
     \<lparr>b_address = Text ''Elm St 2'', b_payment = Text ''online'',
      b_phone = Text ''+7 900 111'', b_total = Some 30, b_email = Text ''alice@example.org'',
      b_items = Some [10, 11], b_comment = Missing\<rparr>"

text \<open>A request body that sets the password and nothing else.\<close>

definition body_pw :: "int user_body" where
  "body_pw =
     \<lparr>ub_name = None, ub_email = None, ub_password = Some ''hunter22'', ub_tokens = None,
      ub_roles = None, ub_phone = None, ub_totalAmount = None, ub_orderCount = None,
      ub_orders = None, ub_lastOrderDate = None, ub_lastOrder = None\<rparr>"

text \<open>A request body that sets the order count and nothing else.\<close>

definition body_count :: "int user_body" where
  "body_count =
     \<lparr>ub_name = None, ub_email = None, ub_password = None, ub_tokens = None,
      ub_roles = None, ub_phone = None, ub_totalAmount = None, ub_orderCount = Some 7,
      ub_orders = None, ub_lastOrderDate = None, ub_lastOrder = None\<rparr>"

text \<open>Successive calls of the sequence generator, one after the other.\<close>

fun nextValues :: "nat \<Rightarrow> 'a db \<Rightarrow> nat list \<times> 'a db" where
  "nextValues 0 db = ([], db)"
| "nextValues (Suc k) db =
     (let (v, db') = Counter_findOneAndUpdate db;
          (vs, db'') = nextValues k db'
      in (v # vs, db''))"

section \<open>Lemmas on the store\<close>

lemma map_of_update_doc:
  "map_of (update_doc i f docs) k =
     (if k = i then map_option f (map_of docs i) else map_of docs k)"
  by (induction docs) (auto simp: update_doc_def)

lemma update_doc_const_absorb:
  "update_doc i (\<lambda>u. v) (update_doc i g docs) = update_doc i (\<lambda>u. v) docs"
  by (induction docs) (auto simp: update_doc_def)

lemma jwt_verify_Inr:
  "jwt_verify raw secret now = Inr t \<longleftrightarrow>
     raw = Jwt t \<and> jwt_key t = secret \<and> now < jwt_exp t"
  by (cases raw) (auto split: if_splits)

section \<open>Role guard\<close>

text \<open>
  C7. A role-guarded route: without an authenticated user the guard fails with
  Unauthorized; with a user none of whose roles is required it fails with Forbidden; with
  a user holding at least one required role it lets the request through. So roles
  \<open>[Customer]\<close> on an admin-only route give Forbidden and roles \<open>[Admin]\<close> pass.
\<close>

theorem roleGuard_cases:
  "roleGuardMiddleware required None = Inl (UnauthorizedError AuthorizationNeeded) \<and>
   (set required \<inter> set (u_roles user) = {} \<longrightarrow>
      roleGuardMiddleware required (Some (uid, user)) = Inl (ForbiddenError AccessDenied)) \<and>
   (set required \<inter> set (u_roles user) \<noteq> {} \<longrightarrow>
      roleGuardMiddleware required (Some (uid, user)) = Inr ()) \<and>
   (u_roles user = [Customer] \<longrightarrow>
      roleGuardMiddleware [Admin] (Some (uid, user)) = Inl (ForbiddenError AccessDenied)) \<and>
   (u_roles user = [Admin] \<longrightarrow> roleGuardMiddleware [Admin] (Some (uid, user)) = Inr ())"
  by (auto simp: roleGuardMiddleware_def list_ex_iff)

theorem roleGuard_cases_witness:
  "u_roles user0 = [Customer] \<and>
   set [Admin] \<inter> set (u_roles user0) = {} \<and>
   set [Customer, Admin] \<inter> set (u_roles user0) \<noteq> {} \<and>
   roleGuardMiddleware [Admin] (Some (1, user0)) = Inl (ForbiddenError AccessDenied) \<and>
   roleGuardMiddleware [Customer, Admin] (Some (1, user0)) = Inr () \<and>
   roleGuardMiddleware [Admin] (Some (2, user0\<lparr>u_roles := [Admin]\<rparr>)) = Inr ()"
proof -
  have customer: "u_roles user0 = [Customer]"
    by (simp add: user0_def)
  have admin: "u_roles (user0\<lparr>u_roles := [Admin]\<rparr>) = [Admin]"
    by simp
  have disjoint: "set [Admin] \<inter> set (u_roles user0) = {}"
    by (simp add: customer)
  have common: "set [Customer, Admin] \<inter> set (u_roles user0) \<noteq> {}"
    by (simp add: customer)
  note forbidden = roleGuard_cases [of "[Admin]" user0 1, THEN conjunct2, THEN conjunct1,
                                    rule_format, OF disjoint]
  note allowed = roleGuard_cases [of "[Customer, Admin]" user0 1, THEN conjunct2,
                                  THEN conjunct2, THEN conjunct1, rule_format, OF common]
  note allowed' = roleGuard_cases [of "[Admin]" "user0\<lparr>u_roles := [Admin]\<rparr>" 2,
                                   THEN conjunct2, THEN conjunct2, THEN conjunct2,
                                   THEN conjunct2, rule_format, OF admin]
  show ?thesis
    by (intro conjI customer disjoint common forbidden allowed allowed')
qed

section \<open>Session middleware\<close>

text \<open>
  C10. A request whose Bearer access token verifies (signed with the access secret, not
  expired) but whose subject is the id of no user: the session middleware fails with
  Forbidden (status 403), not with Unauthorized and not with NotFound.
\<close>

theorem auth_unknown_subject:
  assumes "jwt_verify aTkn (ACCESS_TOKEN_secret cfg) now = Inr payload"
      and "map_of (db_users db) (jwt_sub payload) = None"
  shows "auth cfg now (Some (Bearer aTkn)) db = Inl (ForbiddenError NoAccess) \<and>
         statusCode (ForbiddenError NoAccess) = 403 \<and>
         \<not> fails_NotFound_or_Unauthorized (auth cfg now (Some (Bearer aTkn)) db)"
  using assms by (simp add: auth_def fails_NotFound_or_Unauthorized_def)

theorem auth_unknown_subject_witness:
  "jwt_verify (Jwt (jwt_sign 9 (Some ''dan@example.org'') ''access-key'' 60 9 100))
     (ACCESS_TOKEN_secret cfg0) 150 =
     Inr (jwt_sign 9 (Some ''dan@example.org'') ''access-key'' 60 9 100) \<and>
   map_of (db_users db0) 9 = None \<and>
   auth cfg0 150
     (Some (Bearer (Jwt (jwt_sign 9 (Some ''dan@example.org'') ''access-key'' 60 9 100)))) db0 =
     Inl (ForbiddenError NoAccess)"
proof -
  let ?t = "jwt_sign 9 (Some ''dan@example.org'') ''access-key'' 60 9 100"
  have verified: "jwt_verify (Jwt ?t) (ACCESS_TOKEN_secret cfg0) 150 = Inr ?t"
    by (simp add: cfg0_def jwt_sign_def)
  have gone: "map_of (db_users db0) (jwt_sub ?t) = None"
    by (simp add: db0_def jwt_sign_def)
  have sub: "jwt_sub ?t = 9"
    by (simp add: jwt_sign_def)
  show ?thesis
    using auth_unknown_subject [OF verified gone] verified gone by (simp only: sub simp_thms)
qed

section \<open>Ownership\<close>

text \<open>
  C6, as stated, fails on the ownership guard: for a user who is not an administrator
  and an order that exists and belongs to someone else, \<open>currentUserAccessMiddleware\<close>
  answers Forbidden, not NotFound. Here the customer 1 asks for order 50 of customer 3.
\<close>

theorem ownership_guard_counterexample:
  "Admin \<notin> set (u_roles user0) \<and>
   Order_findById db0 50 = Some order0 \<and>
   o_customer order0 \<noteq> Some 1 \<and>
   currentUserAccessMiddleware (Order_findById db0) o_customer 50 (Some (1, user0)) =
     Inl (ForbiddenError AccessDenied) \<and>
   \<not> fails_NotFound_or_Unauthorized
       (currentUserAccessMiddleware (Order_findById db0) o_customer 50 (Some (1, user0)))"
  by (simp add: currentUserAccessMiddleware_def Order_findById_def db0_def user0_def
        order0_def fails_NotFound_or_Unauthorized_def)

text \<open>
  C6, amended. Through \<open>getOrderCurrentUserByNumber\<close> a user who asks, by number, for
  an order of another user (one that still exists) gets NotFound, with the very error
  the endpoint gives on any store where no order has that number. The ownership guard
  \<open>currentUserAccessMiddleware\<close>, for a user who is not an administrator, answers
  Forbidden when the entity exists and belongs to someone else, and NotFound only when
  the entity does not exist.
\<close>

theorem ownership_outcomes:
  "(find (\<lambda>d. o_orderNumber d = Some n) (db_orders db) = Some order \<longrightarrow>
    o_customer order = Some owner \<longrightarrow>
    owner \<noteq> userId \<longrightarrow>
    map_of (db_users db) owner = Some customer \<longrightarrow>
    find (\<lambda>d. o_orderNumber d = Some n) (db_orders db') = None \<longrightarrow>
      getOrderCurrentUserByNumber userId (Some n) db = Inl (NotFoundError OrderAbsent) \<and>
      getOrderCurrentUserByNumber userId (Some n) db' =
        getOrderCurrentUserByNumber userId (Some n) db) \<and>
   (Admin \<notin> set (u_roles user) \<longrightarrow>
    findById ident = Some entity \<longrightarrow>
    userProperty entity \<noteq> Some uid \<longrightarrow>
      currentUserAccessMiddleware findById userProperty ident (Some (uid, user)) =
        Inl (ForbiddenError AccessDenied)) \<and>
   (Admin \<notin> set (u_roles user) \<longrightarrow>
    findById ident = None \<longrightarrow>
      currentUserAccessMiddleware findById userProperty ident (Some (uid, user)) =
        Inl (NotFoundError NotFoundPlain))"
  by (auto simp: getOrderCurrentUserByNumber_def currentUserAccessMiddleware_def)

theorem ownership_outcomes_witness:
  "find (\<lambda>d. o_orderNumber d = Some 1) (db_orders db0) = Some order0 \<and>
   o_customer order0 = Some 3 \<and>
   map_of (db_users db0) 3 = Some carol \<and>
   find (\<lambda>d. o_orderNumber d = Some 1) (db_orders (db0\<lparr>db_orders := []\<rparr>)) = None \<and>
   getOrderCurrentUserByNumber 1 (Some 1) db0 = Inl (NotFoundError OrderAbsent) \<and>
   getOrderCurrentUserByNumber 1 (Some 1) (db0\<lparr>db_orders := []\<rparr>) =
     Inl (NotFoundError OrderAbsent) \<and>
   Admin \<notin> set (u_roles user0) \<and>
   Order_findById db0 50 = Some order0 \<and>
   Order_findById db0 77 = None \<and>
   currentUserAccessMiddleware (Order_findById db0) o_customer 50 (Some (1, user0)) =
     Inl (ForbiddenError AccessDenied) \<and>
   currentUserAccessMiddleware (Order_findById db0) o_customer 77 (Some (1, user0)) =
     Inl (NotFoundError NotFoundPlain)"
proof -
  have found: "find (\<lambda>d. o_orderNumber d = Some 1) (db_orders db0) = Some order0"
    by (simp add: db0_def order0_def)
  have owned: "o_customer order0 = Some 3"
    by (simp add: order0_def)
  have other: "(3::oid) \<noteq> 1"
    by simp
  have other': "o_customer order0 \<noteq> Some 1"
    by (simp add: order0_def)
  have owner: "map_of (db_users db0) 3 = Some carol"
    by (simp add: db0_def)
  have absent: "find (\<lambda>d. o_orderNumber d = Some 1) (db_orders (db0\<lparr>db_orders := []\<rparr>)) = None"
    by simp
  have plain: "Admin \<notin> set (u_roles user0)"
    by (simp add: user0_def)
  have entity: "Order_findById db0 50 = Some order0"
    by (simp add: Order_findById_def db0_def order0_def)
  have none: "Order_findById db0 77 = None"
    by (simp add: Order_findById_def db0_def order0_def)
  note byNumber = ownership_outcomes [of 1 db0 order0 3 1 carol "db0\<lparr>db_orders := []\<rparr>",
                                       THEN conjunct1, rule_format,
                                       OF found owned other owner absent]
  note notFound = byNumber [THEN conjunct1]
  have gone: "getOrderCurrentUserByNumber 1 (Some 1) (db0\<lparr>db_orders := []\<rparr>) =
                Inl (NotFoundError OrderAbsent)"
    using byNumber [THEN conjunct2] notFound by (rule trans)
  note forbidden =
    ownership_outcomes [of 1 db0 order0 3 1 carol db0 user0 "Order_findById db0" 50 order0
                           o_customer 1,
                        THEN conjunct2, THEN conjunct1, rule_format, OF plain entity other']
  note missing =
    ownership_outcomes [of 1 db0 order0 3 1 carol db0 user0 "Order_findById db0" 77 order0
                           o_customer 1,
                        THEN conjunct2, THEN conjunct2, rule_format, OF plain none]
  show ?thesis
    by (intro conjI found owned owner absent notFound gone plain entity none forbidden missing)
qed

text \<open>
  An order without a customer, or whose customer is no longer stored, is populated with
  \<open>null\<close>: the endpoint then fails on reading \<open>_id\<close> of it, whoever asks.
\<close>

lemma getOrderCurrentUserByNumber_orphan:
  assumes "find (\<lambda>d. o_orderNumber d = Some n) (db_orders db) = Some order"
      and "o_customer order = None \<or>
           (\<exists>owner. o_customer order = Some owner \<and> map_of (db_users db) owner = None)"
  shows "getOrderCurrentUserByNumber userId (Some n) db = Inl TypeError"
  using assms by (auto simp: getOrderCurrentUserByNumber_def)

section \<open>Refresh-token rotation\<close>

text \<open>Validation looks at the name, the email, the password and the tokens only.\<close>

lemma user_validate_tokens:
  assumes "user_validate cfg withPassword user"
      and "\<forall>token\<in>set tokens. token \<noteq> []"
  shows "user_validate cfg withPassword (user\<lparr>u_tokens := tokens\<rparr>)"
  using assms by (simp add: user_validate_def)

lemma user_validate_tokens_iff:
  assumes "set tokens \<subseteq> set (u_tokens user)"
  shows "user_validate cfg withPassword user \<Longrightarrow>
         user_validate cfg withPassword (user\<lparr>u_tokens := tokens\<rparr>)"
  using assms by (auto simp: user_validate_def)

lemma deleteRefreshTokenInUser_valid:
  assumes "jwt_verify (Jwt t) (REFRESH_TOKEN_secret cfg) now = Inr t"
      and "map_of (db_users db) (jwt_id t) = Some user"
      and "user_validate cfg False user"
  shows "deleteRefreshTokenInUser cfg now (Some (Jwt t)) db =
           (let doc = (jwt_id t,
                       user\<lparr>u_tokens :=
                              filter (\<lambda>h. h \<noteq> createHmac cfg (REFRESH_TOKEN_secret cfg) (Jwt t))
                                (u_tokens user)\<rparr>)
            in (Inr doc, db\<lparr>db_users := update_doc (jwt_id t) (\<lambda>u. snd doc) (db_users db)\<rparr>))"
proof -
  have "user_validate cfg False
          (user\<lparr>u_tokens := filter (\<lambda>h. h \<noteq> createHmac cfg (REFRESH_TOKEN_secret cfg) (Jwt t))
                               (u_tokens user)\<rparr>)"
    by (rule user_validate_tokens_iff [OF _ assms(3)]) auto
  then show ?thesis
    using assms(1,2)
    by (simp add: deleteRefreshTokenInUser_def user_save_def hashingPassword_def Let_def
             del: jwt_verify.simps)
qed

lemma refreshAccessToken_valid:
  assumes "jwt_verify (Jwt t) (REFRESH_TOKEN_secret cfg) now = Inr t"
      and "map_of (db_users db) (jwt_id t) = Some user"
      and "user_validate cfg False user"
      and "\<forall>raw. createHmac cfg (REFRESH_TOKEN_secret cfg) raw \<noteq> []"
  shows "refreshAccessToken cfg now (Some (Jwt t)) db =
           (let secret = REFRESH_TOKEN_secret cfg;
                new = Jwt (jwt_sign (jwt_id t) None secret (REFRESH_TOKEN_expiry cfg)
                             (jwt_id t) now);
                kept = user\<lparr>u_tokens := filter (\<lambda>h. h \<noteq> createHmac cfg secret (Jwt t))
                                              (u_tokens user)\<rparr>;
                user' = kept\<lparr>u_tokens := u_tokens kept @ [createHmac cfg secret new]\<rparr>
            in (Inr \<lparr>r_user = (jwt_id t, user'),
                     r_accessToken = generateAccessToken cfg now (jwt_id t, kept),
                     r_cookie = new\<rparr>,
                db\<lparr>db_users := update_doc (jwt_id t) (\<lambda>u. user') (db_users db)\<rparr>))"
proof -
  let ?secret = "REFRESH_TOKEN_secret cfg"
  let ?new = "createHmac cfg ?secret
                (Jwt (jwt_sign (jwt_id t) None ?secret (REFRESH_TOKEN_expiry cfg) (jwt_id t) now))"
  let ?tokens = "filter (\<lambda>h. h \<noteq> createHmac cfg ?secret (Jwt t)) (u_tokens user) @ [?new]"
  have "\<forall>token\<in>set ?tokens. token \<noteq> []"
    using assms(3,4) by (auto simp: user_validate_def)
  then have "user_validate cfg False (user\<lparr>u_tokens := ?tokens\<rparr>)"
    by (rule user_validate_tokens [OF assms(3)])
  then show ?thesis
    by (simp add: refreshAccessToken_def deleteRefreshTokenInUser_valid [OF assms(1-3)]
          generateRefreshToken_def user_save_def hashingPassword_def Let_def
          update_doc_const_absorb)
qed

text \<open>
  A cookie whose token does not verify is refused with the error of the token library,
  which carries no status code, and the store is left as it is.
\<close>

lemma deleteRefreshTokenInUser_unverified:
  assumes "jwt_verify rfTkn (REFRESH_TOKEN_secret cfg) now = Inl e" and "rfTkn \<noteq> Garbage []"
  shows "deleteRefreshTokenInUser cfg now (Some rfTkn) db = (Inl e, db)"
    and "e = JsonWebTokenError \<or> e = TokenExpiredError"
    and "statusCode e = 500"
proof -
  show "deleteRefreshTokenInUser cfg now (Some rfTkn) db = (Inl e, db)"
    using assms by (simp add: deleteRefreshTokenInUser_def)
  show kind: "e = JsonWebTokenError \<or> e = TokenExpiredError"
    using assms(1) by (cases rfTkn) (auto split: if_splits)
  then show "statusCode e = 500"
    by auto
qed

text \<open>
  A user whose stored document fails the validators (a name of one character, say, set
  by an update of the user) can neither log out nor refresh: the save raises a
  ValidationError and the store is left as it is.
\<close>

lemma deleteRefreshTokenInUser_invalid_document:
  assumes "jwt_verify (Jwt t) (REFRESH_TOKEN_secret cfg) now = Inr t"
      and "map_of (db_users db) (jwt_id t) = Some user"
      and "\<not> (2 \<le> length (u_name user) \<and> length (u_name user) \<le> 30 \<and>
              u_email user \<noteq> [] \<and> isEmail cfg (u_email user))"
  shows "deleteRefreshTokenInUser cfg now (Some (Jwt t)) db = (Inl ValidationError, db)"
    and "refreshAccessToken cfg now (Some (Jwt t)) db = (Inl ValidationError, db)"
    and "logout cfg now (Some (Jwt t)) db = (Inl ValidationError, db)"
proof -
  show d: "deleteRefreshTokenInUser cfg now (Some (Jwt t)) db = (Inl ValidationError, db)"
    using assms
    by (auto simp: deleteRefreshTokenInUser_def user_save_def user_validate_def Let_def
             simp del: jwt_verify.simps)
  show "refreshAccessToken cfg now (Some (Jwt t)) db = (Inl ValidationError, db)"
    by (simp add: refreshAccessToken_def d)
  show "logout cfg now (Some (Jwt t)) db = (Inl ValidationError, db)"
    by (simp add: logout_def d)
qed

text \<open>After a refresh the user is stored with the new token list, and still validates.\<close>

lemma refreshAccessToken_after:
  assumes valid: "jwt_verify (Jwt t) (REFRESH_TOKEN_secret cfg) now = Inr t"
      and owner: "map_of (db_users db) (jwt_id t) = Some user"
      and document: "user_validate cfg False user"
      and digest: "\<forall>raw. createHmac cfg (REFRESH_TOKEN_secret cfg) raw \<noteq> []"
  defines "user' \<equiv>
     user\<lparr>u_tokens :=
            filter (\<lambda>h. h \<noteq> createHmac cfg (REFRESH_TOKEN_secret cfg) (Jwt t)) (u_tokens user) @
            [createHmac cfg (REFRESH_TOKEN_secret cfg)
               (Jwt (jwt_sign (jwt_id t) None (REFRESH_TOKEN_secret cfg)
                       (REFRESH_TOKEN_expiry cfg) (jwt_id t) now))]\<rparr>"
  shows "fst (refreshAccessToken cfg now (Some (Jwt t)) db) =
           Inr \<lparr>r_user = (jwt_id t, user'),
                r_accessToken =
                  generateAccessToken cfg now
                    (jwt_id t,
                     user\<lparr>u_tokens :=
                            filter (\<lambda>h. h \<noteq> createHmac cfg (REFRESH_TOKEN_secret cfg) (Jwt t))
                              (u_tokens user)\<rparr>),
                r_cookie = Jwt (jwt_sign (jwt_id t) None (REFRESH_TOKEN_secret cfg)
                                  (REFRESH_TOKEN_expiry cfg) (jwt_id t) now)\<rparr>"
    and "snd (refreshAccessToken cfg now (Some (Jwt t)) db) =
           db\<lparr>db_users := update_doc (jwt_id t) (\<lambda>u. user') (db_users db)\<rparr>"
    and "map_of (db_users (snd (refreshAccessToken cfg now (Some (Jwt t)) db))) (jwt_id t) =
           Some user'"
    and "user_validate cfg False user'"
proof -
  note r = refreshAccessToken_valid [OF valid owner document digest]
  show "fst (refreshAccessToken cfg now (Some (Jwt t)) db) =
           Inr \<lparr>r_user = (jwt_id t, user'),
                r_accessToken =
                  generateAccessToken cfg now
                    (jwt_id t,
                     user\<lparr>u_tokens :=
                            filter (\<lambda>h. h \<noteq> createHmac cfg (REFRESH_TOKEN_secret cfg) (Jwt t))
                              (u_tokens user)\<rparr>),
                r_cookie = Jwt (jwt_sign (jwt_id t) None (REFRESH_TOKEN_secret cfg)
                                  (REFRESH_TOKEN_expiry cfg) (jwt_id t) now)\<rparr>"
    by (simp add: r Let_def user'_def)
  show s: "snd (refreshAccessToken cfg now (Some (Jwt t)) db) =
           db\<lparr>db_users := update_doc (jwt_id t) (\<lambda>u. user') (db_users db)\<rparr>"
    by (simp add: r Let_def user'_def)
  show "map_of (db_users (snd (refreshAccessToken cfg now (Some (Jwt t)) db))) (jwt_id t) =
           Some user'"
    by (simp add: s map_of_update_doc owner)
  show "user_validate cfg False user'"
    unfolding user'_def
    by (rule user_validate_tokens [OF document]) (use document digest in \<open>auto simp: user_validate_def\<close>)
qed

text \<open>
  C1, as stated, fails in its last part. The customer 1 holds the refresh token \<open>tkn0\<close>,
  valid until second 700, whose fingerprint is stored. The token is refreshed at second
  200. At second 300 the old raw token is presented again: the revocation (the helper of
  \<open>logout\<close>) returns the user instead of failing, and a second refresh succeeds too.
\<close>

theorem old_token_accepted_counterexample:
  "jwt_verify (Jwt tkn0) (REFRESH_TOKEN_secret cfg0) 200 = Inr tkn0 \<and>
   map_of (db_users db0) (jwt_id tkn0) = Some user0 \<and>
   createHmac cfg0 (REFRESH_TOKEN_secret cfg0) (Jwt tkn0) \<in> set (u_tokens user0) \<and>
   createHmac cfg0 (REFRESH_TOKEN_secret cfg0) (Jwt tkn0) \<notin>
     set (u_tokens (the (map_of
       (db_users (snd (refreshAccessToken cfg0 200 (Some (Jwt tkn0)) db0))) 1))) \<and>
   \<not> fails_NotFound_or_Unauthorized
       (fst (deleteRefreshTokenInUser cfg0 300 (Some (Jwt tkn0))
               (snd (refreshAccessToken cfg0 200 (Some (Jwt tkn0)) db0)))) \<and>
   \<not> fails_NotFound_or_Unauthorized
       (fst (logout cfg0 300 (Some (Jwt tkn0))
               (snd (refreshAccessToken cfg0 200 (Some (Jwt tkn0)) db0)))) \<and>
   \<not> fails_NotFound_or_Unauthorized
       (fst (refreshAccessToken cfg0 300 (Some (Jwt tkn0))
               (snd (refreshAccessToken cfg0 200 (Some (Jwt tkn0)) db0)))) \<and>
   \<not> isl (fst (refreshAccessToken cfg0 200 (Some (Jwt tkn0)) db0)) \<and>
   \<not> isl (fst (deleteRefreshTokenInUser cfg0 300 (Some (Jwt tkn0))
                 (snd (refreshAccessToken cfg0 200 (Some (Jwt tkn0)) db0)))) \<and>
   \<not> isl (fst (logout cfg0 300 (Some (Jwt tkn0))
                 (snd (refreshAccessToken cfg0 200 (Some (Jwt tkn0)) db0)))) \<and>
   \<not> isl (fst (refreshAccessToken cfg0 300 (Some (Jwt tkn0))
                 (snd (refreshAccessToken cfg0 200 (Some (Jwt tkn0)) db0))))"
proof -
  have valid: "jwt_verify (Jwt tkn0) (REFRESH_TOKEN_secret cfg0) 200 = Inr tkn0"
    by (simp add: tkn0_def cfg0_def jwt_sign_def)
  have later: "jwt_verify (Jwt tkn0) (REFRESH_TOKEN_secret cfg0) 300 = Inr tkn0"
    by (simp add: tkn0_def cfg0_def jwt_sign_def)
  have owner: "map_of (db_users db0) (jwt_id tkn0) = Some user0"
    by (simp add: tkn0_def db0_def jwt_sign_def)
  have stored: "createHmac cfg0 (REFRESH_TOKEN_secret cfg0) (Jwt tkn0) \<in> set (u_tokens user0)"
    by (simp add: user0_def cfg0_def)
  have document: "user_validate cfg0 False user0"
    by (simp add: user_validate_def user0_def cfg0_def)
  have digest: "\<forall>raw. createHmac cfg0 (REFRESH_TOKEN_secret cfg0) raw \<noteq> []"
    by (simp add: cfg0_def split: rawtoken.splits)
  have ident: "jwt_id tkn0 = 1"
    by (simp add: tkn0_def jwt_sign_def)
  have differ: "createHmac cfg0 (REFRESH_TOKEN_secret cfg0)
                  (Jwt (jwt_sign 1 None (REFRESH_TOKEN_secret cfg0) (REFRESH_TOKEN_expiry cfg0) 1 200)) \<noteq>
                createHmac cfg0 (REFRESH_TOKEN_secret cfg0) (Jwt tkn0)"
    by (simp add: cfg0_def tkn0_def jwt_sign_def char_of_eq_iff)
  have tokens0: "u_tokens user0 = [createHmac cfg0 (REFRESH_TOKEN_secret cfg0) (Jwt tkn0)]"
    by (simp add: user0_def cfg0_def)
  note after = refreshAccessToken_after [OF valid owner document digest]
  have removed: "createHmac cfg0 (REFRESH_TOKEN_secret cfg0) (Jwt tkn0) \<notin>
     set (u_tokens (the (map_of
       (db_users (snd (refreshAccessToken cfg0 200 (Some (Jwt tkn0)) db0))) 1)))"
    using differ after(3) by (simp add: ident tokens0)
  have first: "\<not> isl (fst (refreshAccessToken cfg0 200 (Some (Jwt tkn0)) db0))"
    by (simp add: after(1))
  note revoked = deleteRefreshTokenInUser_valid [OF later after(3,4)]
  note renewed = refreshAccessToken_after(1) [OF later after(3,4) digest]
  have revoke: "\<not> isl (fst (deleteRefreshTokenInUser cfg0 300 (Some (Jwt tkn0))
                 (snd (refreshAccessToken cfg0 200 (Some (Jwt tkn0)) db0))))"
    by (simp add: revoked Let_def)
  have out: "\<not> isl (fst (logout cfg0 300 (Some (Jwt tkn0))
                 (snd (refreshAccessToken cfg0 200 (Some (Jwt tkn0)) db0))))"
    by (simp add: logout_def revoked Let_def)
  have again: "\<not> isl (fst (refreshAccessToken cfg0 300 (Some (Jwt tkn0))
                 (snd (refreshAccessToken cfg0 200 (Some (Jwt tkn0)) db0))))"
    by (simp add: renewed)
  have accepted: "\<not> fails_NotFound_or_Unauthorized outcome" if "\<not> isl outcome"
    for outcome :: "error + 'r"
    using that by (cases outcome) (simp_all add: fails_NotFound_or_Unauthorized_def)
  show ?thesis
    by (intro conjI valid owner stored removed accepted [OF revoke] accepted [OF out]
          accepted [OF again] first revoke out again)
qed

text \<open>
  C1, amended. Let \<open>t\<close> be a refresh token that verifies, of an existing user whose
  stored document passes the validators of the user schema, with its fingerprint
  stored (a fingerprint, a hex digest, is never the empty string). The refresh
  succeeds; afterwards the fingerprint of the newly issued token is in the user's token
  list, and the fingerprint of \<open>t\<close> is not, provided the two fingerprints differ (a
  refresh in the very second \<open>t\<close> was issued signs the same token again). Presenting \<open>t\<close>
  later, while it still verifies, is not refused: the revocation returns the user and,
  the fingerprints differing, leaves the store as it is; another refresh succeeds as
  well. Whether a fingerprint is in the list is never checked.
\<close>

theorem refresh_rotation:
  assumes valid: "jwt_verify (Jwt t) (REFRESH_TOKEN_secret cfg) now = Inr t"
      and owner: "map_of (db_users db) (jwt_id t) = Some user"
      and stored: "createHmac cfg (REFRESH_TOKEN_secret cfg) (Jwt t) \<in> set (u_tokens user)"
      and later: "jwt_verify (Jwt t) (REFRESH_TOKEN_secret cfg) now' = Inr t"
      and document: "user_validate cfg False user"
      and digest: "\<forall>raw. createHmac cfg (REFRESH_TOKEN_secret cfg) raw \<noteq> []"
  shows "\<exists>resp. fst (refreshAccessToken cfg now (Some (Jwt t)) db) = Inr resp \<and>
           (let db' = snd (refreshAccessToken cfg now (Some (Jwt t)) db);
                old = createHmac cfg (REFRESH_TOKEN_secret cfg) (Jwt t);
                new = createHmac cfg (REFRESH_TOKEN_secret cfg) (r_cookie resp);
                tokens' = u_tokens (snd (r_user resp))
            in map_of (db_users db') (jwt_id t) = Some (snd (r_user resp)) \<and>
               new \<in> set tokens' \<and>
               (new \<noteq> old \<longrightarrow> old \<notin> set tokens') \<and>
               (new \<noteq> old \<longrightarrow>
                  deleteRefreshTokenInUser cfg now' (Some (Jwt t)) db' = (Inr (r_user resp), db')) \<and>
               (\<exists>doc. fst (deleteRefreshTokenInUser cfg now' (Some (Jwt t)) db') = Inr doc) \<and>
               (\<exists>resp'. fst (refreshAccessToken cfg now' (Some (Jwt t)) db') = Inr resp'))"
proof -
  let ?secret = "REFRESH_TOKEN_secret cfg"
  let ?old = "createHmac cfg ?secret (Jwt t)"
  let ?newTkn = "Jwt (jwt_sign (jwt_id t) None ?secret (REFRESH_TOKEN_expiry cfg) (jwt_id t) now)"
  let ?new = "createHmac cfg ?secret ?newTkn"
  let ?kept = "user\<lparr>u_tokens := filter (\<lambda>h. h \<noteq> ?old) (u_tokens user)\<rparr>"
  let ?user' = "user\<lparr>u_tokens := filter (\<lambda>h. h \<noteq> ?old) (u_tokens user) @ [?new]\<rparr>"
  let ?db' = "db\<lparr>db_users := update_doc (jwt_id t) (\<lambda>u. ?user') (db_users db)\<rparr>"
  let ?again = "?user'\<lparr>u_tokens := filter (\<lambda>h. h \<noteq> ?old) (u_tokens ?user')\<rparr>"
  note after = refreshAccessToken_after [OF valid owner document digest]
  have fst_r: "fst (refreshAccessToken cfg now (Some (Jwt t)) db) =
      Inr \<lparr>r_user = (jwt_id t, ?user'),
           r_accessToken = generateAccessToken cfg now (jwt_id t, ?kept),
           r_cookie = ?newTkn\<rparr>"
    by (rule after(1))
  have snd_r: "snd (refreshAccessToken cfg now (Some (Jwt t)) db) = ?db'"
    by (rule after(2))
  have owner': "map_of (db_users ?db') (jwt_id t) = Some ?user'"
    using after(3) by (simp only: snd_r)
  have document': "user_validate cfg False ?user'"
    by (rule after(4))
  have d: "deleteRefreshTokenInUser cfg now' (Some (Jwt t)) ?db' =
        (Inr (jwt_id t, ?again),
         ?db'\<lparr>db_users := update_doc (jwt_id t) (\<lambda>u. ?again) (db_users ?db')\<rparr>)"
    using deleteRefreshTokenInUser_valid [OF later owner' document'] by (simp add: Let_def)
  have d_same: "deleteRefreshTokenInUser cfg now' (Some (Jwt t)) ?db' = (Inr (jwt_id t, ?user'), ?db')"
    if "?new \<noteq> ?old"
  proof -
    have "filter (\<lambda>h. h \<noteq> ?old) (u_tokens ?user') = u_tokens ?user'"
      using that by simp
    then have "?again = ?user'"
      by simp
    then show ?thesis
      unfolding d by (simp add: update_doc_const_absorb)
  qed
  have r2: "\<exists>resp'. fst (refreshAccessToken cfg now' (Some (Jwt t)) ?db') = Inr resp'"
    using refreshAccessToken_after(1) [OF later owner' document' digest] by simp
  show ?thesis
    unfolding fst_r snd_r using owner' d_same r2 by (simp add: Let_def d)
qed

theorem refresh_rotation_witness:
  "user_validate cfg0 False user0 \<and>
   (\<forall>raw. createHmac cfg0 (REFRESH_TOKEN_secret cfg0) raw \<noteq> []) \<and>
   createHmac cfg0 (REFRESH_TOKEN_secret cfg0)
     (r_cookie (projr (fst (refreshAccessToken cfg0 200 (Some (Jwt tkn0)) db0)))) \<noteq>
   createHmac cfg0 (REFRESH_TOKEN_secret cfg0) (Jwt tkn0) \<and>
   (\<exists>resp. fst (refreshAccessToken cfg0 200 (Some (Jwt tkn0)) db0) = Inr resp \<and>
      (let db' = snd (refreshAccessToken cfg0 200 (Some (Jwt tkn0)) db0);
           old = createHmac cfg0 (REFRESH_TOKEN_secret cfg0) (Jwt tkn0);
           new = createHmac cfg0 (REFRESH_TOKEN_secret cfg0) (r_cookie resp);
           tokens' = u_tokens (snd (r_user resp))
       in map_of (db_users db') (jwt_id tkn0) = Some (snd (r_user resp)) \<and>
          new \<in> set tokens' \<and>
          (new \<noteq> old \<longrightarrow> old \<notin> set tokens') \<and>
          (new \<noteq> old \<longrightarrow>
             deleteRefreshTokenInUser cfg0 300 (Some (Jwt tkn0)) db' = (Inr (r_user resp), db')) \<and>
          (\<exists>doc. fst (deleteRefreshTokenInUser cfg0 300 (Some (Jwt tkn0)) db') = Inr doc) \<and>
          (\<exists>resp'. fst (refreshAccessToken cfg0 300 (Some (Jwt tkn0)) db') = Inr resp')))"
proof -
  have valid: "jwt_verify (Jwt tkn0) (REFRESH_TOKEN_secret cfg0) 200 = Inr tkn0"
    by (simp add: tkn0_def cfg0_def jwt_sign_def)
  have later: "jwt_verify (Jwt tkn0) (REFRESH_TOKEN_secret cfg0) 300 = Inr tkn0"
    by (simp add: tkn0_def cfg0_def jwt_sign_def)
  have owner: "map_of (db_users db0) (jwt_id tkn0) = Some user0"
    by (simp add: tkn0_def db0_def jwt_sign_def)
  have stored: "createHmac cfg0 (REFRESH_TOKEN_secret cfg0) (Jwt tkn0) \<in> set (u_tokens user0)"
    by (simp add: user0_def cfg0_def)
  have document: "user_validate cfg0 False user0"
    by (simp add: user_validate_def user0_def cfg0_def)
  have digest: "\<forall>raw. createHmac cfg0 (REFRESH_TOKEN_secret cfg0) raw \<noteq> []"
    by (simp add: cfg0_def split: rawtoken.splits)
  have differ: "createHmac cfg0 (REFRESH_TOKEN_secret cfg0)
     (r_cookie (projr (fst (refreshAccessToken cfg0 200 (Some (Jwt tkn0)) db0)))) \<noteq>
   createHmac cfg0 (REFRESH_TOKEN_secret cfg0) (Jwt tkn0)"
    by (simp add: refreshAccessToken_after(1) [OF valid owner document digest])
       (simp add: cfg0_def tkn0_def jwt_sign_def char_of_eq_iff)
  show ?thesis
    by (intro conjI document digest differ
          refresh_rotation [OF valid owner stored later document digest])
qed

text \<open>
  Why the fingerprints must differ: a token refreshed in the second it was issued is
  signed again with the same claims, so the fingerprint removed is the one appended.
\<close>

lemma refresh_same_second:
  assumes minted: "t = jwt_sign uid None (REFRESH_TOKEN_secret cfg) (REFRESH_TOKEN_expiry cfg) uid now"
      and lives: "0 < REFRESH_TOKEN_expiry cfg"
      and owner: "map_of (db_users db) uid = Some user"
      and document: "user_validate cfg False user"
      and digest: "\<forall>raw. createHmac cfg (REFRESH_TOKEN_secret cfg) raw \<noteq> []"
  shows "r_cookie (projr (fst (refreshAccessToken cfg now (Some (Jwt t)) db))) = Jwt t"
    and "createHmac cfg (REFRESH_TOKEN_secret cfg) (Jwt t) \<in>
           set (u_tokens (the (map_of
             (db_users (snd (refreshAccessToken cfg now (Some (Jwt t)) db))) uid)))"
proof -
  have ident: "jwt_id t = uid"
    by (simp add: minted jwt_sign_def)
  have valid: "jwt_verify (Jwt t) (REFRESH_TOKEN_secret cfg) now = Inr t"
    using lives by (simp add: minted jwt_sign_def)
  have owner': "map_of (db_users db) (jwt_id t) = Some user"
    by (simp add: ident owner)
  have same: "jwt_sign (jwt_id t) None (REFRESH_TOKEN_secret cfg) (REFRESH_TOKEN_expiry cfg)
                (jwt_id t) now = t"
    by (simp add: ident) (simp add: minted)
  note after = refreshAccessToken_after [OF valid owner' document digest]
  show "r_cookie (projr (fst (refreshAccessToken cfg now (Some (Jwt t)) db))) = Jwt t"
    by (simp add: after(1) same)
  show "createHmac cfg (REFRESH_TOKEN_secret cfg) (Jwt t) \<in>
           set (u_tokens (the (map_of
             (db_users (snd (refreshAccessToken cfg now (Some (Jwt t)) db))) uid)))"
    using after(3) minted [symmetric] by (simp add: ident)
qed

section \<open>Lemmas on the order aggregate\<close>

lemma fill_basket_Inr:
  "fill_basket products items acc = Inr basket \<longleftrightarrow>
     (\<forall>i\<in>set items. \<not> item_unknown products i \<and> \<not> item_not_for_sale products i) \<and>
     basket = acc @ map (\<lambda>i. the (find (\<lambda>p. p_id p = i) products)) items"
  by (induction items arbitrary: acc)
     (auto simp: item_unknown_def item_not_for_sale_def split: option.splits)

lemma fill_basket_Inl:
  "fill_basket products items acc = Inl e \<Longrightarrow> fails_BadRequest (Inl e :: error + 'r)"
  by (induction items arbitrary: acc)
     (auto simp: fails_BadRequest_def split: option.splits)

lemma totalBasket_resolved:
  assumes "\<forall>i\<in>set items. \<not> item_unknown products i \<and> \<not> item_not_for_sale products i"
  shows "foldl (\<lambda>a c. case p_price c of Some price \<Rightarrow> a + price | None \<Rightarrow> a) a
           (map (\<lambda>i. the (find (\<lambda>p. p_id p = i) products)) items) =
         foldl (+) a (resolved_prices products items)"
  using assms
proof (induction items arbitrary: a)
  case Nil
  show ?case by (simp add: resolved_prices_def)
next
  case (Cons i items)
  from Cons.prems obtain product price
    where "find (\<lambda>p. p_id p = i) products = Some product" "p_price product = Some price"
    by (auto simp: item_unknown_def item_not_for_sale_def split: option.splits)
  moreover have "foldl (\<lambda>a c. case p_price c of Some price \<Rightarrow> a + price | None \<Rightarrow> a) b
           (map (\<lambda>i. the (find (\<lambda>p. p_id p = i) products)) items) =
         foldl (+) b (resolved_prices products items)" for b
    using Cons.IH Cons.prems by simp
  ultimately show ?case
    using Cons.IH by (simp add: resolved_prices_def)
qed

text \<open>The statistics fields and the order list are not among the validated paths.\<close>

lemma user_validate_assignStats:
  "user_validate cfg withPassword (assignStats orderStats user) =
     user_validate cfg withPassword user"
  by (simp add: assignStats_def user_validate_def split: list.splits)

lemma user_validate_orders:
  "user_validate cfg withPassword (user\<lparr>u_orders := orders\<rparr>) =
     user_validate cfg withPassword user"
  by (simp add: user_validate_def)

lemma calculateOrderStats_Inr:
  "fst (calculateOrderStats cfg doc unsaved db) =
     (if user_validate cfg False (snd doc) then Inr () else Inl ValidationError)"
  by (simp add: calculateOrderStats_def Let_def user_validate_assignStats)

lemma map_of_calculateOrderStats:
  "map_of (db_users (snd (calculateOrderStats cfg doc unsaved db))) k =
     (if k = fst doc \<and> user_validate cfg False (snd doc)
      then map_option (\<lambda>stored. assignStats (aggregateOrderStats (fst doc) (db_orders db))
                                  (unsaved stored))
             (map_of (db_users db) (fst doc))
      else map_of (db_users db) k)"
  by (simp add: calculateOrderStats_def Let_def map_of_update_doc user_validate_assignStats)

lemma calculateOrderStats_frame:
  "db_orders (snd (calculateOrderStats cfg doc unsaved db)) = db_orders db"
  "db_products (snd (calculateOrderStats cfg doc unsaved db)) = db_products db"
  "db_counter (snd (calculateOrderStats cfg doc unsaved db)) = db_counter db"
  "db_statsRuns (snd (calculateOrderStats cfg doc unsaved db)) = db_statsRuns db @ [fst doc]"
  by (simp_all add: calculateOrderStats_def Let_def)

text \<open>A recomputation whose save is refused changes no user.\<close>

lemma calculateOrderStats_refused:
  assumes "\<not> user_validate cfg False (snd doc)"
  shows "calculateOrderStats cfg doc unsaved db =
           (Inl ValidationError, db\<lparr>db_statsRuns := db_statsRuns db @ [fst doc]\<rparr>)"
  using assms by (simp add: calculateOrderStats_def Let_def user_validate_assignStats)

text \<open>What a successful \<open>createOrder\<close> has done.\<close>

lemma createOrder_Inr:
  assumes "createOrder cfg now ident userId body db = (Inr order, db')"
  shows "order = \<lparr>o_id = ident,
                  o_orderNumber = Some (case db_counter db of None \<Rightarrow> 1 | Some n \<Rightarrow> n + 1),
                  o_status = New, o_totalAmount = the (b_total body),
                  o_products = the (b_items body),
                  o_payment = field_text (b_payment body),
                  o_customer = (case map_of (db_users db) userId of
                                  None \<Rightarrow> None
                                | Some user \<Rightarrow> Some userId),
                  o_deliveryAddress = field_opt (b_address body),
                  o_email = field_text (b_email body),
                  o_phone = field_text (b_phone body),
                  o_comment = (case b_comment body of Missing \<Rightarrow> Some [] | c \<Rightarrow> field_opt c),
                  o_createdAt = now\<rparr>"
    and "ident \<notin> set (map o_id (db_orders db))"
    and "o_orderNumber order \<notin> set (map o_orderNumber (db_orders db))"
    and "db' = updateUserStats_save cfg order
                 (db\<lparr>db_counter := o_orderNumber order, db_orders := db_orders db @ [order]\<rparr>)"
    and "b_items body \<noteq> None" and "b_total body \<noteq> None" and "order_validate cfg body"
  using assms
  by (auto simp: createOrder_def order_save_def incrementOrderNumber_def
        Counter_findOneAndUpdate_def Let_def
      split: sum.splits if_splits prod.splits error.splits option.splits)

lemma updateUserStats_save_frame:
  "db_orders (updateUserStats_save cfg doc db) = db_orders db"
  "db_products (updateUserStats_save cfg doc db) = db_products db"
  "db_counter (updateUserStats_save cfg doc db) = db_counter db"
  by (simp_all add: updateUserStats_save_def calculateOrderStats_frame split: option.splits)

section \<open>Order creation\<close>

text \<open>
  C2, as stated, fails: a request can be rejected with BadRequest although every item
  resolves to a priced product and the prices add up to the declared total. Here the
  items 10 and 11 cost 10 and 20, the declared total is 30, and the email is empty: the
  save raises a ValidationError, which the handler turns into a BadRequest.
\<close>

theorem createOrder_validation_counterexample:
  "b_items (body0\<lparr>b_email := Text []\<rparr>) = Some [10, 11] \<and>
   b_total (body0\<lparr>b_email := Text []\<rparr>) = Some 30 \<and>
   \<not> basket_refused (db_products db0) [10, 11] (Some 30) \<and>
   createOrder cfg0 500 51 1 (body0\<lparr>b_email := Text []\<rparr>) db0 =
     (Inl (BadRequestError SchemaValidation), db0) \<and>
   fails_BadRequest (fst (createOrder cfg0 500 51 1 (body0\<lparr>b_email := Text []\<rparr>) db0))"
  by (simp add: createOrder_def order_save_def order_validate_def totalBasket_def
        basket_refused_def resolved_prices_def item_unknown_def item_not_for_sale_def
        fails_BadRequest_def body0_def db0_def)

text \<open>
  C2, amended. A request whose \<open>items\<close> is no array fails with a TypeError, which is no
  BadRequest, and nothing is stored. A request with the array \<open>items\<close> is rejected with
  BadRequest if and only if some item id resolves to no product, or some resolved
  product has no price, or the prices of the resolved products, added up from 0 in the
  order of the items, are not equal to the declared total, or the document fails the
  validators of the order schema (payment one of the two enum values, email and phone
  present and well-formed, address and comment castable to a string). Otherwise the
  order is created: appended to the orders, with the declared total, and with the
  requesting user as customer if that user is stored and no customer if not; unless the
  id drawn or the next order number is already taken, in which case the insertion fails
  with a duplicate-key error.
\<close>

theorem createOrder_rejection:
  fixes body :: "('a::{zero,plus}) order_body"
  shows "(b_items body = None \<longrightarrow>
            createOrder cfg now ident userId body db = (Inl TypeError, db)) \<and>
         (b_items body = Some items \<longrightarrow>
            (fails_BadRequest (fst (createOrder cfg now ident userId body db)) \<longleftrightarrow>
               basket_refused (db_products db) items (b_total body) \<or>
               \<not> order_validate cfg body) \<and>
            (\<not> basket_refused (db_products db) items (b_total body) \<longrightarrow>
             order_validate cfg body \<longrightarrow> key_taken ident db \<longrightarrow>
               fst (createOrder cfg now ident userId body db) = Inl DuplicateKeyError) \<and>
            (\<not> basket_refused (db_products db) items (b_total body) \<longrightarrow>
             order_validate cfg body \<longrightarrow> \<not> key_taken ident db \<longrightarrow>
               (\<exists>order. fst (createOrder cfg now ident userId body db) = Inr order \<and>
                  db_orders (snd (createOrder cfg now ident userId body db)) =
                    db_orders db @ [order] \<and>
                  o_id order = ident \<and>
                  o_customer order =
                    (if map_of (db_users db) userId = None then None else Some userId) \<and>
                  Some (o_totalAmount order) = b_total body \<and> o_products order = items)))"
proof (intro conjI impI)
  assume "b_items body = None"
  then show "createOrder cfg now ident userId body db = (Inl TypeError, db)"
    by (simp add: createOrder_def)
next
  assume items: "b_items body = Some items"
  let ?run = "createOrder cfg now ident userId body db"
  let ?refused = "basket_refused (db_products db) items (b_total body)"
  have "(fails_BadRequest (fst ?run) \<longleftrightarrow> ?refused \<or> \<not> order_validate cfg body) \<and>
        (\<not> ?refused \<longrightarrow> order_validate cfg body \<longrightarrow> key_taken ident db \<longrightarrow>
           fst ?run = Inl DuplicateKeyError) \<and>
        (\<not> ?refused \<longrightarrow> order_validate cfg body \<longrightarrow> \<not> key_taken ident db \<longrightarrow>
           (\<exists>order. fst ?run = Inr order \<and>
              db_orders (snd ?run) = db_orders db @ [order] \<and>
              o_id order = ident \<and>
              o_customer order =
                (if map_of (db_users db) userId = None then None else Some userId) \<and>
              Some (o_totalAmount order) = b_total body \<and> o_products order = items))"
  proof (cases "fill_basket (db_products db) items []")
    case (Inl e)
    then have bad: "fails_BadRequest (Inl e :: error + 'a order)"
      by (rule fill_basket_Inl)
    have "\<not> (\<forall>i\<in>set items. \<not> item_unknown (db_products db) i \<and>
               \<not> item_not_for_sale (db_products db) i)"
      using Inl fill_basket_Inr [of "db_products db" items "[]"] by auto
    then have "?refused"
      by (auto simp: basket_refused_def)
    then show ?thesis
      using bad Inl items by (simp add: createOrder_def)
  next
    case (Inr basket)
    then have ok: "\<forall>i\<in>set items. \<not> item_unknown (db_products db) i \<and>
                     \<not> item_not_for_sale (db_products db) i"
      and basket: "basket = map (\<lambda>i. the (find (\<lambda>p. p_id p = i) (db_products db))) items"
      by (simp_all add: fill_basket_Inr)
    have total: "totalBasket basket = foldl (+) 0 (resolved_prices (db_products db) items)"
      unfolding totalBasket_def basket by (rule totalBasket_resolved [OF ok])
    show ?thesis
    proof (cases "b_total body = Some (totalBasket basket)")
      case False
      then have "?refused"
        using total by (auto simp: basket_refused_def)
      moreover have "fst ?run = Inl (BadRequestError WrongOrderTotal)"
        using False Inr items by (auto simp: createOrder_def split: option.splits)
      ultimately show ?thesis
        by (simp add: fails_BadRequest_def)
    next
      case True
      then have accepted: "\<not> ?refused"
        using total ok by (auto simp: basket_refused_def)
      show ?thesis
      proof (cases "order_validate cfg body")
        case False
        then have "fst ?run = Inl (BadRequestError SchemaValidation)"
          using True Inr items by (simp add: createOrder_def order_save_def)
        then show ?thesis
          using False by (simp add: fails_BadRequest_def)
      next
        case valid: True
        show ?thesis
        proof (cases "key_taken ident db")
          case True
          then have "fst ?run = Inl DuplicateKeyError"
            using valid \<open>b_total body = Some (totalBasket basket)\<close> Inr items
            by (auto simp: createOrder_def order_save_def key_taken_def
                  incrementOrderNumber_def Counter_findOneAndUpdate_def Let_def)
          then show ?thesis
            using True accepted valid by (simp add: fails_BadRequest_def)
        next
          case False
          then show ?thesis
            using valid accepted \<open>b_total body = Some (totalBasket basket)\<close> Inr items
            by (auto simp: createOrder_def order_save_def key_taken_def fails_BadRequest_def
                  incrementOrderNumber_def Counter_findOneAndUpdate_def
                  updateUserStats_save_frame Let_def
                split: option.splits)
        qed
      qed
    qed
  qed
  then show "fails_BadRequest (fst ?run) \<longleftrightarrow> ?refused \<or> \<not> order_validate cfg body"
    and "\<not> ?refused \<Longrightarrow> order_validate cfg body \<Longrightarrow> key_taken ident db \<Longrightarrow>
           fst ?run = Inl DuplicateKeyError"
    and "\<not> ?refused \<Longrightarrow> order_validate cfg body \<Longrightarrow> \<not> key_taken ident db \<Longrightarrow>
           \<exists>order. fst ?run = Inr order \<and>
              db_orders (snd ?run) = db_orders db @ [order] \<and>
              o_id order = ident \<and>
              o_customer order =
                (if map_of (db_users db) userId = None then None else Some userId) \<and>
              Some (o_totalAmount order) = b_total body \<and> o_products order = items"
    by blast+
qed

theorem createOrder_rejection_witness:
  "createOrder cfg0 500 51 1 (body0\<lparr>b_items := None\<rparr>) db0 = (Inl TypeError, db0) \<and>
   fails_BadRequest (fst (createOrder cfg0 500 51 1 (body0\<lparr>b_total := Some 25\<rparr>) db0)) \<and>
   fails_BadRequest (fst (createOrder cfg0 500 51 1 (body0\<lparr>b_payment := Text ''cash''\<rparr>) db0)) \<and>
   \<not> fails_BadRequest (fst (createOrder cfg0 500 51 1 body0 db0)) \<and>
   fst (createOrder cfg0 500 50 1 body0 db0) = Inl DuplicateKeyError \<and>
   (\<exists>order. fst (createOrder cfg0 500 51 1 body0 db0) = Inr order \<and>
      db_orders (snd (createOrder cfg0 500 51 1 body0 db0)) = db_orders db0 @ [order] \<and>
      o_id order = 51 \<and> o_customer order = Some 1 \<and>
      Some (o_totalAmount order) = b_total body0 \<and> o_products order = [10, 11]) \<and>
   (\<exists>order. fst (createOrder cfg0 500 51 9 body0 db0) = Inr order \<and>
      db_orders (snd (createOrder cfg0 500 51 9 body0 db0)) = db_orders db0 @ [order] \<and>
      o_id order = 51 \<and> o_customer order = None \<and>
      Some (o_totalAmount order) = b_total body0 \<and> o_products order = [10, 11])"
proof -
  have items: "b_items body0 = Some [10, 11]" "b_items (body0\<lparr>b_total := Some 25\<rparr>) = Some [10, 11]"
    "b_items (body0\<lparr>b_payment := Text ''cash''\<rparr>) = Some [10, 11]"
    "b_items (body0\<lparr>b_items := None\<rparr>) = None"
    by (simp_all add: body0_def)
  have basket: "\<not> basket_refused (db_products db0) [10, 11] (b_total body0)"
    by (simp add: basket_refused_def body0_def db0_def item_unknown_def item_not_for_sale_def
          resolved_prices_def)
  have short: "basket_refused (db_products db0) [10, 11] (b_total (body0\<lparr>b_total := Some 25\<rparr>))"
    by (simp add: basket_refused_def body0_def db0_def item_unknown_def item_not_for_sale_def
          resolved_prices_def)
  have valid: "order_validate cfg0 body0"
    by (simp add: order_validate_def cfg0_def body0_def)
  have cash: "\<not> order_validate cfg0 (body0\<lparr>b_payment := Text ''cash''\<rparr>)"
    by (simp add: order_validate_def cfg0_def body0_def)
  have free: "\<not> key_taken 51 db0"
    by (simp add: key_taken_def db0_def order0_def)
  have taken: "key_taken 50 db0"
    by (simp add: key_taken_def db0_def order0_def)
  have stored: "(if map_of (db_users db0) 1 = None then None else Some (1::nat)) = Some 1"
    "(if map_of (db_users db0) 9 = None then None else Some (9::nat)) = None"
    by (simp_all add: db0_def)
  note absent = createOrder_rejection
    [where body = "body0\<lparr>b_items := None\<rparr>" and items = "[]" and cfg = cfg0
       and now = 500 and ident = 51 and userId = 1 and db = db0,
     THEN conjunct1, rule_format, OF items(4)]
  note wrong = createOrder_rejection
    [where body = "body0\<lparr>b_total := Some 25\<rparr>" and items = "[10, 11]" and cfg = cfg0
       and now = 500 and ident = 51 and userId = 1 and db = db0,
     THEN conjunct2, rule_format, OF items(2), THEN conjunct1, THEN iffD2, OF disjI1,
     OF short]
  note payment = createOrder_rejection
    [where body = "body0\<lparr>b_payment := Text ''cash''\<rparr>" and items = "[10, 11]"
       and cfg = cfg0 and now = 500 and ident = 51 and userId = 1 and db = db0,
     THEN conjunct2, rule_format, OF items(3), THEN conjunct1, THEN iffD2, OF disjI2,
     OF cash]
  have accepted: "\<not> fails_BadRequest (fst (createOrder cfg0 500 51 1 body0 db0))"
    using createOrder_rejection
      [where body = body0 and items = "[10, 11]" and cfg = cfg0 and now = 500
         and ident = 51 and userId = 1 and db = db0,
       THEN conjunct2, rule_format, OF items(1), THEN conjunct1] basket valid
    by simp
  note duplicate = createOrder_rejection
    [where body = body0 and items = "[10, 11]" and cfg = cfg0 and now = 500
       and ident = 50 and userId = 1 and db = db0,
     THEN conjunct2, rule_format, OF items(1), THEN conjunct2, THEN conjunct1, rule_format,
     OF basket valid taken]
  note created = createOrder_rejection
    [where body = body0 and items = "[10, 11]" and cfg = cfg0 and now = 500
       and ident = 51 and userId = 1 and db = db0,
     THEN conjunct2, rule_format, OF items(1), THEN conjunct2, THEN conjunct2, rule_format,
     OF basket valid free, unfolded stored]
  note orphan = createOrder_rejection
    [where body = body0 and items = "[10, 11]" and cfg = cfg0 and now = 500
       and ident = 51 and userId = 9 and db = db0,
     THEN conjunct2, rule_format, OF items(1), THEN conjunct2, THEN conjunct2, rule_format,
     OF basket valid free, unfolded stored]
  show ?thesis
    by (intro conjI absent wrong payment accepted duplicate created orphan)
qed

section \<open>Statistics\<close>

lemma aggregateOrderStats_snoc:
  assumes "o_customer order = Some uid"
  shows "aggregateOrderStats uid (orders @ [order]) =
           [\<lparr>s_totalAmount =
               foldl (+) 0 (map o_totalAmount (filter (\<lambda>d. o_customer d = Some uid) orders)) +
               o_totalAmount order,
             s_lastOrderDate =
               Max (set (map o_createdAt (filter (\<lambda>d. o_customer d = Some uid) orders @ [order]))),
             s_orderCount = length (filter (\<lambda>d. o_customer d = Some uid) orders) + 1,
             s_lastOrder = o_id order\<rparr>]"
  using assms by (simp add: aggregateOrderStats_def Let_def)

text \<open>
  The statistics of a user are current exactly when assigning the aggregation of the
  user's orders changes nothing; so they are current after every recomputation that is
  saved.
\<close>

lemma stats_current_iff:
  "stats_current uid db \<longleftrightarrow>
     (\<exists>user. map_of (db_users db) uid = Some user \<and>
             assignStats (aggregateOrderStats uid (db_orders db)) user = user)"
proof (cases "map_of (db_users db) uid")
  case None
  then show ?thesis
    by (simp add: stats_current_def)
next
  case (Some user)
  have "assignStats (aggregateOrderStats uid (db_orders db)) user = user \<longleftrightarrow>
        u_totalAmount (assignStats (aggregateOrderStats uid (db_orders db)) user) =
          u_totalAmount user \<and>
        u_orderCount (assignStats (aggregateOrderStats uid (db_orders db)) user) =
          u_orderCount user \<and>
        u_lastOrder (assignStats (aggregateOrderStats uid (db_orders db)) user) =
          u_lastOrder user \<and>
        u_lastOrderDate (assignStats (aggregateOrderStats uid (db_orders db)) user) =
          u_lastOrderDate user"
    by (cases user) (auto simp: assignStats_def split: list.splits)
  then show ?thesis
    using Some
    by (auto simp: stats_current_def assignStats_def aggregateOrderStats_def Let_def)
qed

lemma stats_current_assigned:
  assumes "map_of (db_users db) uid =
             Some (assignStats (aggregateOrderStats uid (db_orders db)) user)"
  shows "stats_current uid db"
  using assms
  by (simp add: stats_current_iff) (simp add: assignStats_def split: list.splits)

text \<open>The statistics fields of a user whose statistics are current.\<close>

lemma stats_current_fields:
  assumes "stats_current uid db" and "map_of (db_users db) uid = Some user"
  shows "assignStats (aggregateOrderStats uid (db_orders db)) user = user"
    and "u_totalAmount user =
           foldl (+) 0 (map o_totalAmount (filter (\<lambda>d. o_customer d = Some uid) (db_orders db)))"
    and "u_orderCount user = length (filter (\<lambda>d. o_customer d = Some uid) (db_orders db))"
proof -
  show "assignStats (aggregateOrderStats uid (db_orders db)) user = user"
    using assms by (simp add: stats_current_iff)
  show "u_totalAmount user =
           foldl (+) 0 (map o_totalAmount (filter (\<lambda>d. o_customer d = Some uid) (db_orders db)))"
    using assms by (simp add: stats_current_def Let_def)
  show "u_orderCount user = length (filter (\<lambda>d. o_customer d = Some uid) (db_orders db))"
    using assms by (simp add: stats_current_def Let_def)
qed

lemma assignStats_fields:
  "u_totalAmount (assignStats s user) = u_totalAmount (assignStats s user')"
  "u_orderCount (assignStats s user) = u_orderCount (assignStats s user')"
  "u_lastOrder (assignStats s user) = u_lastOrder (assignStats s user')"
  "u_lastOrderDate (assignStats s user) = u_lastOrderDate (assignStats s user')"
  by (simp_all add: assignStats_def split: list.splits)

lemma find_snoc_fresh:
  assumes "\<forall>x\<in>set xs. \<not> P x" and "P y"
  shows "find P (xs @ [y]) = Some y"
  using assms by (induction xs) auto

lemma remove1_snoc_fresh:
  assumes "y \<notin> set xs"
  shows "remove1 y (xs @ [y]) = xs"
  using assms by (induction xs) auto

text \<open>
  The store after an order was created for a stored user whose document validates: the
  order is pushed onto the user's orders and the statistics are those of the orders
  with the new one.
\<close>

lemma createOrder_recomputes:
  fixes db :: "('a::{zero,plus}) db"
  assumes user: "map_of (db_users db) uid = Some U"
      and document: "user_validate cfg False U"
      and created: "createOrder cfg now ident uid body db = (Inr placed, db1)"
  shows "o_customer placed = Some uid" and "o_id placed = ident"
    and "map_of (db_users db1) uid =
           Some (assignStats (aggregateOrderStats uid (db_orders db @ [placed]))
                   (U\<lparr>u_orders := u_orders U @ [o_id placed]\<rparr>))"
    and "db_orders db1 = db_orders db @ [placed]"
    and "stats_current uid db1"
proof -
  note c = createOrder_Inr [OF created]
  show cust: "o_customer placed = Some uid" and ident: "o_id placed = ident"
    by (simp_all add: c(1) user)
  have db1: "db1 = snd (calculateOrderStats cfg
                          (uid, U\<lparr>u_orders := u_orders U @ [o_id placed]\<rparr>)
                          (\<lambda>u. u\<lparr>u_orders := u_orders u @ [o_id placed]\<rparr>)
                          (db\<lparr>db_counter := o_orderNumber placed,
                              db_orders := db_orders db @ [placed]\<rparr>))"
    unfolding c(4) by (simp add: updateUserStats_save_def cust user)
  show U1: "map_of (db_users db1) uid =
           Some (assignStats (aggregateOrderStats uid (db_orders db @ [placed]))
                   (U\<lparr>u_orders := u_orders U @ [o_id placed]\<rparr>))"
    unfolding db1 by (simp add: map_of_calculateOrderStats user document user_validate_orders)
  show orders1: "db_orders db1 = db_orders db @ [placed]"
    unfolding db1 by (simp add: calculateOrderStats_frame)
  show "stats_current uid db1"
    by (rule stats_current_assigned) (simp add: U1 orders1)
qed

lemma updateUserStats_delete_frame:
  "db_orders (snd (updateUserStats_delete cfg order db)) = db_orders db"
  "db_products (snd (updateUserStats_delete cfg order db)) = db_products db"
  "db_counter (snd (updateUserStats_delete cfg order db)) = db_counter db"
  "db_statsRuns (snd (updateUserStats_delete cfg order db)) =
     db_statsRuns db @
       (case o_customer order of
          None \<Rightarrow> []
        | Some owner \<Rightarrow> if map_of (db_users db) owner = None then [] else [owner])"
  by (simp_all add: updateUserStats_delete_def calculateOrderStats_frame split: option.splits)

lemma map_of_updateUserStats_delete_other:
  assumes "o_customer order \<noteq> Some uid"
  shows "map_of (db_users (snd (updateUserStats_delete cfg order db))) uid =
           map_of (db_users db) uid"
  using assms
  by (auto simp: updateUserStats_delete_def map_of_calculateOrderStats map_of_update_doc
      split: option.splits)

lemma deleteOrder_found:
  assumes "find (\<lambda>d. o_id d = i) (db_orders db) = Some deleted"
  shows "fst (deleteOrder cfg (Some i) db) =
           (case fst (updateUserStats_delete cfg deleted
                        (db\<lparr>db_orders := remove1 deleted (db_orders db)\<rparr>)) of
              Inl e \<Rightarrow> Inl e
            | Inr done \<Rightarrow> Inr deleted)"
    and "snd (deleteOrder cfg (Some i) db) =
           snd (updateUserStats_delete cfg deleted
                  (db\<lparr>db_orders := remove1 deleted (db_orders db)\<rparr>))"
  using assms by (simp_all add: deleteOrder_def split: prod.splits sum.splits)

lemma deleteOrder_Inr:
  assumes "deleteOrder cfg i db = (Inr deleted, db2)"
  shows "\<exists>j. i = Some j \<and> find (\<lambda>d. o_id d = j) (db_orders db) = Some deleted"
    and "db2 = snd (updateUserStats_delete cfg deleted
                      (db\<lparr>db_orders := remove1 deleted (db_orders db)\<rparr>))"
  using assms
  by (auto simp: deleteOrder_def split: option.splits prod.splits sum.splits)

text \<open>
  The store after an order of a stored user was deleted: the order is pulled from the
  user's orders and the statistics are those of the orders that remain.
\<close>

lemma deleteOrder_recomputes:
  fixes db :: "('a::{zero,plus}) db"
  assumes found: "find (\<lambda>d. o_id d = i) (db_orders db) = Some deleted"
      and owner: "o_customer deleted = Some uid"
      and user: "map_of (db_users db) uid = Some U"
      and document: "user_validate cfg False U"
  shows "deleteOrder cfg (Some i) db =
           (Inr deleted,
            snd (calculateOrderStats cfg (uid, U) (\<lambda>u. u)
                   (db\<lparr>db_orders := remove1 deleted (db_orders db),
                       db_users := update_doc uid
                         (\<lambda>u. u\<lparr>u_orders := removeAll (o_id deleted) (u_orders u)\<rparr>)
                         (db_users db)\<rparr>)))"
    and "map_of (db_users (snd (deleteOrder cfg (Some i) db))) uid =
           Some (assignStats (aggregateOrderStats uid (remove1 deleted (db_orders db)))
                   (U\<lparr>u_orders := removeAll (o_id deleted) (u_orders U)\<rparr>))"
    and "db_orders (snd (deleteOrder cfg (Some i) db)) = remove1 deleted (db_orders db)"
    and "stats_current uid (snd (deleteOrder cfg (Some i) db))"
proof -
  show del: "deleteOrder cfg (Some i) db =
           (Inr deleted,
            snd (calculateOrderStats cfg (uid, U) (\<lambda>u. u)
                   (db\<lparr>db_orders := remove1 deleted (db_orders db),
                       db_users := update_doc uid
                         (\<lambda>u. u\<lparr>u_orders := removeAll (o_id deleted) (u_orders u)\<rparr>)
                         (db_users db)\<rparr>)))"
    by (simp add: prod_eq_iff deleteOrder_found [OF found] updateUserStats_delete_def owner user
          calculateOrderStats_Inr document)
  show U2: "map_of (db_users (snd (deleteOrder cfg (Some i) db))) uid =
           Some (assignStats (aggregateOrderStats uid (remove1 deleted (db_orders db)))
                   (U\<lparr>u_orders := removeAll (o_id deleted) (u_orders U)\<rparr>))"
    unfolding del by (simp add: map_of_calculateOrderStats map_of_update_doc user document)
  show orders2: "db_orders (snd (deleteOrder cfg (Some i) db)) = remove1 deleted (db_orders db)"
    unfolding del by (simp add: calculateOrderStats_frame)
  show "stats_current uid (snd (deleteOrder cfg (Some i) db))"
    by (rule stats_current_assigned) (simp add: U2 orders2)
qed

text \<open>
  Creating or deleting an order of one user leaves the statistics of every other user
  current, and so does a status update.
\<close>

lemma stats_current_cong:
  assumes "map_of (db_users db') uid = map_of (db_users db) uid"
      and "filter (\<lambda>d. o_customer d = Some uid) (db_orders db') =
           filter (\<lambda>d. o_customer d = Some uid) (db_orders db)"
  shows "stats_current uid db' = stats_current uid db"
  unfolding stats_current_def assms ..

lemma map_of_updateUserStats_save_other:
  assumes "o_customer doc \<noteq> Some uid"
  shows "map_of (db_users (updateUserStats_save cfg doc db)) uid = map_of (db_users db) uid"
  using assms
  by (auto simp: updateUserStats_save_def map_of_calculateOrderStats split: option.splits)

lemma stats_current_createOrder_other:
  fixes db :: "('a::{zero,plus}) db"
  assumes "createOrder cfg now ident userId body db = (Inr placed, db1)" and "userId \<noteq> uid"
  shows "stats_current uid db1 = stats_current uid db"
proof -
  note c = createOrder_Inr [OF assms(1)]
  have other: "o_customer placed \<noteq> Some uid"
    using assms(2) by (simp add: c(1) split: option.splits)
  show ?thesis
    unfolding c(4)
    by (rule stats_current_cong)
       (simp_all add: map_of_updateUserStats_save_other [OF other] updateUserStats_save_frame
          other)
qed

lemma filter_remove1_other:
  assumes "\<not> P y"
  shows "filter P (remove1 y xs) = filter P xs"
  using assms by (induction xs) auto

lemma stats_current_deleteOrder_other:
  fixes db :: "('a::{zero,plus}) db"
  assumes "deleteOrder cfg i db = (Inr deleted, db2)" and "o_customer deleted \<noteq> Some uid"
  shows "stats_current uid db2 = stats_current uid db"
proof (rule stats_current_cong)
  note d = deleteOrder_Inr [OF assms(1)]
  show "map_of (db_users db2) uid = map_of (db_users db) uid"
    unfolding d(2) by (simp add: map_of_updateUserStats_delete_other [OF assms(2)])
  have "db_orders db2 = remove1 deleted (db_orders db)"
    unfolding d(2) by (simp add: updateUserStats_delete_frame)
  then show "filter (\<lambda>d. o_customer d = Some uid) (db_orders db2) =
             filter (\<lambda>d. o_customer d = Some uid) (db_orders db)"
    using assms(2) by (simp add: filter_remove1_other)
qed

lemma update_first_status:
  "map (\<lambda>d. (o_id d, o_customer d, o_totalAmount d, o_createdAt d))
     (update_first P (\<lambda>order. order\<lparr>o_status := st\<rparr>) xs) =
   map (\<lambda>d. (o_id d, o_customer d, o_totalAmount d, o_createdAt d)) xs"
  by (induction xs) simp_all

lemma update_first_id:
  "update_first P (\<lambda>x. x) xs = xs"
  by (induction xs) simp_all

lemma stats_current_projection:
  assumes "map_of (db_users db') uid = map_of (db_users db) uid"
      and "map (\<lambda>d. (o_id d, o_customer d, o_totalAmount d, o_createdAt d)) (db_orders db') =
           map (\<lambda>d. (o_id d, o_customer d, o_totalAmount d, o_createdAt d)) (db_orders db)"
  shows "stats_current uid db' = stats_current uid db"
proof -
  let ?proj = "\<lambda>d. (o_id d, o_customer d, o_totalAmount d, o_createdAt d)"
  let ?own = "\<lambda>db. filter (\<lambda>d. o_customer d = Some uid) (db_orders db)"
  have own: "map ?proj (?own db') = map ?proj (?own db)"
    using arg_cong [OF assms(2), of "filter (\<lambda>p. fst (snd p) = Some uid)"]
    by (simp add: filter_map comp_def)
  have amounts: "map o_totalAmount (?own db') = map o_totalAmount (?own db)"
    using arg_cong [OF own, of "map (\<lambda>p. fst (snd (snd p)))"] by (simp add: comp_def)
  have dates: "map o_createdAt (?own db') = map o_createdAt (?own db)"
    using arg_cong [OF own, of "map (\<lambda>p. snd (snd (snd p)))"] by (simp add: comp_def)
  have ids: "map o_id (?own db') = map o_id (?own db)"
    using arg_cong [OF own, of "map fst"] by (simp add: comp_def)
  have len: "length (?own db') = length (?own db)"
    using arg_cong [OF ids, of length] by simp
  have empty: "?own db' = [] \<longleftrightarrow> ?own db = []"
    using len by (metis length_0_conv)
  have lasts: "?own db \<noteq> [] \<Longrightarrow> o_id (last (?own db')) = o_id (last (?own db))"
    using arg_cong [OF ids, of last] empty by (simp add: last_map)
  show ?thesis
    unfolding stats_current_def assms(1) Let_def amounts dates len
    using empty lasts by (auto split: option.splits)
qed

lemma stats_current_updateOrder:
  "stats_current uid (snd (updateOrder n status db)) = stats_current uid db"
  by (rule stats_current_projection)
     (auto simp: updateOrder_def update_first_status update_first_id id_def
        split: option.splits)

text \<open>
  C3, as stated, fails: the statistics after a creation are those of the orders, not
  the prior statistics plus the order. Customer 3 has one order, of amount 10. An
  update of the user (\<open>updateCurrentUser\<close>, which stores any field of its body) sets the
  order count to 7. An order of amount 30 is then created for the customer: the
  recomputed count is 2, not 8; and after the order is deleted the count is 1, not the
  prior 7.
\<close>

theorem stats_stale_counterexample:
  "(let stale = snd (updateCurrentUser (3, carol) body_count db0);
        created = createOrder cfg0 500 51 3 body0 stale;
        deleted = deleteOrder cfg0 (Some 51) (snd created)
    in map_of (db_users stale) 3 = Some (carol\<lparr>u_orderCount := 7\<rparr>) \<and>
       \<not> isl (fst created) \<and>
       o_id (projr (fst created)) = 51 \<and>
       o_customer (projr (fst created)) = Some 3 \<and>
       map_option u_orderCount (map_of (db_users (snd created)) 3) = Some 2 \<and>
       fst deleted = fst created \<and>
       map_option u_orderCount (map_of (db_users (snd deleted)) 3) = Some 1)"
proof -
  let ?stale = "db0\<lparr>db_users := update_doc 3 (\<lambda>u. u\<lparr>u_orderCount := 7\<rparr>) (db_users db0)\<rparr>"
  let ?placed = "\<lparr>o_id = 51, o_orderNumber = Some 2, o_status = New, o_totalAmount = 30,
                  o_products = [10, 11], o_payment = ''online'', o_customer = Some 3,
                  o_deliveryAddress = Some ''Elm St 2'', o_email = ''alice@example.org'',
                  o_phone = ''+7 900 111'', o_comment = Some [], o_createdAt = 500\<rparr> :: int order"
  have stale: "snd (updateCurrentUser (3, carol) body_count db0) = ?stale"
    by (simp add: updateCurrentUser_def User_findByIdAndUpdate_def apply_user_body_def
          set_field_def body_count_def db0_def carol_def user0_def update_doc_def)
  have user: "map_of (db_users ?stale) 3 = Some (carol\<lparr>u_orderCount := 7\<rparr>)"
    by (simp add: map_of_update_doc) (simp add: db0_def)
  have document: "user_validate cfg0 False (carol\<lparr>u_orderCount := 7\<rparr>)"
    by (simp add: user_validate_def carol_def user0_def cfg0_def)
  have placed: "fst (createOrder cfg0 500 51 3 body0 ?stale) = Inr ?placed"
    by (simp add: createOrder_def order_save_def order_validate_def totalBasket_def
          incrementOrderNumber_def Counter_findOneAndUpdate_def body0_def cfg0_def
          field_text_def field_opt_def update_doc_def db0_def order0_def)
  have created: "createOrder cfg0 500 51 3 body0 ?stale =
                   (Inr ?placed, snd (createOrder cfg0 500 51 3 body0 ?stale))"
    using placed by (simp add: prod_eq_iff)
  note c = createOrder_recomputes [OF user document created]
  have own: "filter (\<lambda>d. o_customer d = Some 3) (db_orders db0) = [order0]"
    by (simp add: db0_def order0_def)
  have count1: "map_option u_orderCount
                  (map_of (db_users (snd (createOrder cfg0 500 51 3 body0 ?stale))) 3) = Some 2"
    by (simp add: c(3) aggregateOrderStats_snoc assignStats_def own)
  have found: "find (\<lambda>d. o_id d = 51) (db_orders (snd (createOrder cfg0 500 51 3 body0 ?stale))) =
                 Some ?placed"
    by (simp add: c(4)) (simp add: db0_def order0_def)
  have document1: "user_validate cfg0 False
                     (assignStats (aggregateOrderStats 3 (db_orders ?stale @ [?placed]))
                        (carol\<lparr>u_orderCount := 7, u_orders := u_orders (carol\<lparr>u_orderCount := 7\<rparr>) @ [o_id ?placed]\<rparr>))"
    using document by (simp add: user_validate_assignStats user_validate_orders)
  have owner: "o_customer ?placed = Some 3"
    by simp
  note d = deleteOrder_recomputes [OF found owner c(3) document1]
  have removed: "remove1 ?placed (db_orders ?stale @ [?placed]) = db_orders ?stale"
    by (rule remove1_snoc_fresh) (simp add: db0_def order0_def)
  have again: "fst (deleteOrder cfg0 (Some 51) (snd (createOrder cfg0 500 51 3 body0 ?stale))) =
                 Inr ?placed"
    by (simp add: d(1))
  have count2: "map_option u_orderCount
                  (map_of (db_users (snd (deleteOrder cfg0 (Some 51)
                     (snd (createOrder cfg0 500 51 3 body0 ?stale))))) 3) = Some 1"
    unfolding d(2) c(4) removed
    by (simp add: aggregateOrderStats_def assignStats_def own Let_def)
  show ?thesis
    unfolding Let_def stale
    by (intro conjI user count1 count2) (simp_all add: placed again)
qed

text \<open>
  A second way: if the stored document of the user fails a validator of the user
  schema, the save of the recomputation is refused, and the creation, which does not
  wait for it, succeeds with the user left as it was: the order is neither counted nor
  pushed.
\<close>

lemma createOrder_stats_refused:
  fixes db :: "('a::{zero,plus}) db"
  assumes user: "map_of (db_users db) uid = Some U"
      and document: "\<not> user_validate cfg False U"
      and created: "createOrder cfg now ident uid body db = (Inr placed, db1)"
  shows "db_users db1 = db_users db" and "db_orders db1 = db_orders db @ [placed]"
proof -
  note c = createOrder_Inr [OF created]
  have cust: "o_customer placed = Some uid"
    by (simp add: c(1) user)
  have invalid: "\<not> user_validate cfg False (U\<lparr>u_orders := u_orders U @ [o_id placed]\<rparr>)"
    using document by (simp add: user_validate_orders)
  show "db_users db1 = db_users db"
    unfolding c(4)
    by (simp add: updateUserStats_save_def cust user
          calculateOrderStats_refused [where doc = "(uid, U\<lparr>u_orders := u_orders U @ [o_id placed]\<rparr>)",
                                        simplified, OF invalid])
  show "db_orders db1 = db_orders db @ [placed]"
    unfolding c(4) by (simp add: updateUserStats_save_frame)
qed

text \<open>
  C3, amended. Let the statistics of user U be current, that is, what aggregating the
  orders of U gives, and let the stored document of U pass the validators of the user
  schema. After an order is created for U, the recomputed statistics are: the count is
  the prior count plus one, the total is the prior total plus the amount of the order,
  and the last order is that order. After the order is then deleted, the four
  statistics fields have their prior values again. The statistics are current after
  each of the two steps.
\<close>

theorem stats_roundtrip:
  fixes db :: "('a::{zero,plus}) db"
  assumes user: "map_of (db_users db) uid = Some U"
      and current: "stats_current uid db"
      and document: "user_validate cfg False U"
      and created: "createOrder cfg now ident uid body db = (Inr placed, db1)"
  shows "\<exists>U1 db2 U2.
           map_of (db_users db1) uid = Some U1 \<and>
           u_orderCount U1 = u_orderCount U + 1 \<and>
           u_totalAmount U1 = u_totalAmount U + o_totalAmount placed \<and>
           u_lastOrder U1 = Some (o_id placed) \<and>
           stats_current uid db1 \<and>
           deleteOrder cfg (Some (o_id placed)) db1 = (Inr placed, db2) \<and>
           map_of (db_users db2) uid = Some U2 \<and>
           u_orderCount U2 = u_orderCount U \<and>
           u_totalAmount U2 = u_totalAmount U \<and>
           u_lastOrder U2 = u_lastOrder U \<and>
           u_lastOrderDate U2 = u_lastOrderDate U \<and>
           db_orders db2 = db_orders db \<and>
           stats_current uid db2"
proof -
  note c = createOrder_Inr [OF created]
  note r = createOrder_recomputes [OF user document created]
  note cust = r(1) and ident = r(2)
  let ?pushed = "U\<lparr>u_orders := u_orders U @ [o_id placed]\<rparr>"
  let ?stats1 = "aggregateOrderStats uid (db_orders db @ [placed])"
  let ?U1 = "assignStats ?stats1 ?pushed"
  have count1: "u_orderCount ?U1 = u_orderCount U + 1"
    by (simp add: aggregateOrderStats_snoc [OF cust] assignStats_def
          stats_current_fields(3) [OF current user])
  have total1: "u_totalAmount ?U1 = u_totalAmount U + o_totalAmount placed"
    by (simp add: aggregateOrderStats_snoc [OF cust] assignStats_def
          stats_current_fields(2) [OF current user])
  have last1: "u_lastOrder ?U1 = Some (o_id placed)"
    by (simp add: aggregateOrderStats_snoc [OF cust] assignStats_def)
  have fresh: "\<forall>x\<in>set (db_orders db). \<not> o_id x = o_id placed"
    using c(2) by (auto simp: ident)
  then have notin: "placed \<notin> set (db_orders db)"
    by auto
  have found: "find (\<lambda>d. o_id d = o_id placed) (db_orders db1) = Some placed"
    unfolding r(4) by (rule find_snoc_fresh [OF fresh]) simp
  have document1: "user_validate cfg False ?U1"
    using document by (simp add: user_validate_assignStats user_validate_orders)
  note d = deleteOrder_recomputes [OF found cust r(3) document1]
  have removed: "remove1 placed (db_orders db1) = db_orders db"
    unfolding r(4) by (rule remove1_snoc_fresh [OF notin])
  let ?db2 = "snd (deleteOrder cfg (Some (o_id placed)) db1)"
  let ?pulled = "?U1\<lparr>u_orders := removeAll (o_id placed) (u_orders ?U1)\<rparr>"
  let ?U2 = "assignStats (aggregateOrderStats uid (db_orders db)) ?pulled"
  have del: "deleteOrder cfg (Some (o_id placed)) db1 = (Inr placed, ?db2)"
    by (simp add: d(1))
  have U2: "map_of (db_users ?db2) uid = Some ?U2"
    using d(2) by (simp only: removed)
  have orders2: "db_orders ?db2 = db_orders db"
    using d(3) by (simp only: removed)
  note fixed = stats_current_fields(1) [OF current user]
  have count2: "u_orderCount ?U2 = u_orderCount U"
    using assignStats_fields(2) [of "aggregateOrderStats uid (db_orders db)" ?pulled U]
    by (simp only: fixed)
  have total2: "u_totalAmount ?U2 = u_totalAmount U"
    using assignStats_fields(1) [of "aggregateOrderStats uid (db_orders db)" ?pulled U]
    by (simp only: fixed)
  have last2: "u_lastOrder ?U2 = u_lastOrder U"
    using assignStats_fields(3) [of "aggregateOrderStats uid (db_orders db)" ?pulled U]
    by (simp only: fixed)
  have date2: "u_lastOrderDate ?U2 = u_lastOrderDate U"
    using assignStats_fields(4) [of "aggregateOrderStats uid (db_orders db)" ?pulled U]
    by (simp only: fixed)
  show ?thesis
    by (intro exI [of _ ?U1] exI [of _ ?db2] exI [of _ ?U2] conjI
          r(3) count1 total1 last1 r(5) del U2 count2 total2 last2 date2 orders2 d(4))
qed

theorem stats_roundtrip_witness:
  "map_of (db_users db0) 3 = Some carol \<and> stats_current 3 db0 \<and>
   user_validate cfg0 False carol \<and>
   u_orderCount carol = 1 \<and> u_totalAmount carol = 10 \<and>
   u_lastOrder carol = Some 50 \<and> u_lastOrderDate carol = Some 40 \<and>
   (\<exists>placed U1 db2 U2.
      fst (createOrder cfg0 500 51 3 body0 db0) = Inr placed \<and>
      o_totalAmount placed = 30 \<and> o_id placed = 51 \<and>
      map_of (db_users (snd (createOrder cfg0 500 51 3 body0 db0))) 3 = Some U1 \<and>
      u_orderCount U1 = 2 \<and> u_totalAmount U1 = 40 \<and> u_lastOrder U1 = Some 51 \<and>
      stats_current 3 (snd (createOrder cfg0 500 51 3 body0 db0)) \<and>
      deleteOrder cfg0 (Some 51) (snd (createOrder cfg0 500 51 3 body0 db0)) = (Inr placed, db2) \<and>
      map_of (db_users db2) 3 = Some U2 \<and>
      u_orderCount U2 = 1 \<and> u_totalAmount U2 = 10 \<and>
      u_lastOrder U2 = Some 50 \<and> u_lastOrderDate U2 = Some 40 \<and>
      db_orders db2 = db_orders db0 \<and> stats_current 3 db2)"
proof -
  let ?placed = "\<lparr>o_id = 51, o_orderNumber = Some 2, o_status = New, o_totalAmount = 30,
                  o_products = [10, 11], o_payment = ''online'', o_customer = Some 3,
                  o_deliveryAddress = Some ''Elm St 2'', o_email = ''alice@example.org'',
                  o_phone = ''+7 900 111'', o_comment = Some [], o_createdAt = 500\<rparr> :: int order"
  have user: "map_of (db_users db0) 3 = Some carol"
    by (simp add: db0_def)
  have current: "stats_current 3 db0"
    by (simp add: stats_current_def db0_def order0_def carol_def)
  have document: "user_validate cfg0 False carol"
    by (simp add: user_validate_def carol_def user0_def cfg0_def)
  have fields: "u_orderCount carol = 1" "u_totalAmount carol = 10"
    "u_lastOrder carol = Some 50" "u_lastOrderDate carol = Some 40"
    by (simp_all add: carol_def)
  have placed: "fst (createOrder cfg0 500 51 3 body0 db0) = Inr ?placed"
    by (simp add: createOrder_def order_save_def order_validate_def totalBasket_def
          incrementOrderNumber_def Counter_findOneAndUpdate_def body0_def db0_def cfg0_def
          order0_def field_text_def field_opt_def)
  have created: "createOrder cfg0 500 51 3 body0 db0 =
                   (Inr ?placed, snd (createOrder cfg0 500 51 3 body0 db0))"
    using placed by (simp add: prod_eq_iff)
  from stats_roundtrip [OF user current document created]
  obtain U1 db2 U2 where
    "map_of (db_users (snd (createOrder cfg0 500 51 3 body0 db0))) 3 = Some U1"
    "u_orderCount U1 = 2" "u_totalAmount U1 = 40" "u_lastOrder U1 = Some 51"
    "stats_current 3 (snd (createOrder cfg0 500 51 3 body0 db0))"
    "deleteOrder cfg0 (Some 51) (snd (createOrder cfg0 500 51 3 body0 db0)) = (Inr ?placed, db2)"
    "map_of (db_users db2) 3 = Some U2"
    "u_orderCount U2 = 1" "u_totalAmount U2 = 10"
    "u_lastOrder U2 = Some 50" "u_lastOrderDate U2 = Some 40"
    "db_orders db2 = db_orders db0" "stats_current 3 db2"
    by (auto simp: fields)
  with placed have "\<exists>placed U1 db2 U2.
      fst (createOrder cfg0 500 51 3 body0 db0) = Inr placed \<and>
      o_totalAmount placed = 30 \<and> o_id placed = 51 \<and>
      map_of (db_users (snd (createOrder cfg0 500 51 3 body0 db0))) 3 = Some U1 \<and>
      u_orderCount U1 = 2 \<and> u_totalAmount U1 = 40 \<and> u_lastOrder U1 = Some 51 \<and>
      stats_current 3 (snd (createOrder cfg0 500 51 3 body0 db0)) \<and>
      deleteOrder cfg0 (Some 51) (snd (createOrder cfg0 500 51 3 body0 db0)) = (Inr placed, db2) \<and>
      map_of (db_users db2) 3 = Some U2 \<and>
      u_orderCount U2 = 1 \<and> u_totalAmount U2 = 10 \<and>
      u_lastOrder U2 = Some 50 \<and> u_lastOrderDate U2 = Some 40 \<and>
      db_orders db2 = db_orders db0 \<and> stats_current 3 db2"
    by (intro exI [of _ ?placed] exI [of _ U1] exI [of _ db2] exI [of _ U2]) simp
  then show ?thesis
    using user current document fields by blast
qed

section \<open>Order numbers\<close>

lemma update_first_map:
  assumes "\<And>x. g (f x) = g x"
  shows "map g (update_first P f xs) = map g xs"
  by (induction xs) (simp_all add: assms)

lemma updateOrder_frame:
  "db_users (snd (updateOrder n status db)) = db_users db"
  "db_statsRuns (snd (updateOrder n status db)) = db_statsRuns db"
  "db_counter (snd (updateOrder n status db)) = db_counter db"
  "db_products (snd (updateOrder n status db)) = db_products db"
  "map (\<lambda>d. (o_id d, o_orderNumber d)) (db_orders (snd (updateOrder n status db))) =
     map (\<lambda>d. (o_id d, o_orderNumber d)) (db_orders db)"
  by (auto simp: updateOrder_def update_first_map split: option.splits)

text \<open>
  C4. The order number is assigned by the pre-save hook for a new document only: for a
  document that is not new the hook changes neither the order nor the counter. An order
  gets its number when \<open>createOrder\<close> saves it, the next value of the counter, and the
  orders already stored are left as they are. After that, \<open>updateOrder\<close> changes the
  number of no stored order, and \<open>deleteOrder\<close> only removes the deleted order.
\<close>

theorem orderNumber_assigned_once:
  fixes db :: "('a::{zero,plus}) db"
  shows "incrementOrderNumber False order db = (order, db) \<and>
         o_orderNumber (fst (incrementOrderNumber True order db)) =
           Some (case db_counter db of None \<Rightarrow> 1 | Some n \<Rightarrow> n + 1) \<and>
         (createOrder cfg now ident userId body db = (Inr placed, db1) \<longrightarrow>
            o_orderNumber placed = Some (case db_counter db of None \<Rightarrow> 1 | Some n \<Rightarrow> n + 1) \<and>
            db_counter db1 = o_orderNumber placed \<and>
            db_orders db1 = db_orders db @ [placed]) \<and>
         map (\<lambda>d. (o_id d, o_orderNumber d)) (db_orders (snd (updateOrder n status db))) =
           map (\<lambda>d. (o_id d, o_orderNumber d)) (db_orders db) \<and>
         db_counter (snd (updateOrder n status db)) = db_counter db \<and>
         (deleteOrder cfg i db = (Inr deleted, db2) \<longrightarrow>
            db_orders db2 = remove1 deleted (db_orders db) \<and> db_counter db2 = db_counter db)"
proof -
  have hook: "incrementOrderNumber False order db = (order, db)"
    by (simp add: incrementOrderNumber_def)
  have new: "o_orderNumber (fst (incrementOrderNumber True order db)) =
           Some (case db_counter db of None \<Rightarrow> 1 | Some n \<Rightarrow> n + 1)"
    by (simp add: incrementOrderNumber_def Counter_findOneAndUpdate_def Let_def)
  have create: "o_orderNumber placed = Some (case db_counter db of None \<Rightarrow> 1 | Some n \<Rightarrow> n + 1) \<and>
            db_counter db1 = o_orderNumber placed \<and>
            db_orders db1 = db_orders db @ [placed]"
    if "createOrder cfg now ident userId body db = (Inr placed, db1)"
    using createOrder_Inr(1,4) [OF that] by (simp add: updateUserStats_save_frame)
  have delete: "db_orders db2 = remove1 deleted (db_orders db) \<and> db_counter db2 = db_counter db"
    if "deleteOrder cfg i db = (Inr deleted, db2)"
    using deleteOrder_Inr(2) [OF that] by (simp add: updateUserStats_delete_frame)
  show ?thesis
    using create delete
    by (intro conjI impI hook new updateOrder_frame(3,5)) simp_all
qed

theorem orderNumber_assigned_once_witness:
  "(\<exists>placed.
      createOrder cfg0 500 51 1 body0 db0 =
        (Inr placed, snd (createOrder cfg0 500 51 1 body0 db0)) \<and>
      o_orderNumber placed = Some 2 \<and>
      db_counter (snd (createOrder cfg0 500 51 1 body0 db0)) = Some 2 \<and>
      db_orders (snd (createOrder cfg0 500 51 1 body0 db0)) = db_orders db0 @ [placed]) \<and>
   deleteOrder cfg0 (Some 50) db0 = (Inr order0, snd (deleteOrder cfg0 (Some 50) db0)) \<and>
   db_orders (snd (deleteOrder cfg0 (Some 50) db0)) = [] \<and>
   db_counter (snd (deleteOrder cfg0 (Some 50) db0)) = Some 1"
proof -
  let ?placed = "\<lparr>o_id = 51, o_orderNumber = Some 2, o_status = New, o_totalAmount = 30,
                  o_products = [10, 11], o_payment = ''online'', o_customer = Some 1,
                  o_deliveryAddress = Some ''Elm St 2'', o_email = ''alice@example.org'',
                  o_phone = ''+7 900 111'', o_comment = Some [], o_createdAt = 500\<rparr> :: int order"
  have placed: "fst (createOrder cfg0 500 51 1 body0 db0) = Inr ?placed"
    by (simp add: createOrder_def order_save_def order_validate_def totalBasket_def
          incrementOrderNumber_def Counter_findOneAndUpdate_def body0_def db0_def cfg0_def
          order0_def field_text_def field_opt_def)
  have created: "createOrder cfg0 500 51 1 body0 db0 =
                   (Inr ?placed, snd (createOrder cfg0 500 51 1 body0 db0))"
    using placed by (simp add: prod_eq_iff)
  have found: "find (\<lambda>d. o_id d = 50) (db_orders db0) = Some order0"
    by (simp add: db0_def order0_def)
  have owner: "o_customer order0 = Some 3" "map_of (db_users db0) 3 = Some carol"
    "user_validate cfg0 False carol"
    by (simp_all add: db0_def order0_def user_validate_def carol_def user0_def cfg0_def)
  have deleted: "deleteOrder cfg0 (Some 50) db0 = (Inr order0, snd (deleteOrder cfg0 (Some 50) db0))"
    by (simp add: deleteOrder_recomputes(1) [OF found owner])
  have counter: "(case db_counter db0 of None \<Rightarrow> 1 | Some n \<Rightarrow> n + 1) = 2"
    "db_counter db0 = Some 1" "remove1 order0 (db_orders db0) = []"
    by (simp_all add: db0_def)
  note create = orderNumber_assigned_once
    [where db = db0 and cfg = cfg0 and now = 500 and ident = 51 and userId = 1
       and body = body0 and placed = ?placed
       and ?db1.0 = "snd (createOrder cfg0 500 51 1 body0 db0)",
     THEN conjunct2, THEN conjunct2, THEN conjunct1, rule_format, OF created]
  note delete = orderNumber_assigned_once
    [where db = db0 and cfg = cfg0 and i = "Some 50" and deleted = order0
       and ?db2.0 = "snd (deleteOrder cfg0 (Some 50) db0)",
     THEN conjunct2, THEN conjunct2, THEN conjunct2, THEN conjunct2, THEN conjunct2,
     rule_format, OF deleted]
  show ?thesis
    using created deleted create delete by (simp add: counter)
qed

section \<open>When the statistics are recomputed\<close>

lemma createOrder_Inl:
  fixes db :: "('a::{zero,plus}) db"
  assumes "fst (createOrder cfg now ident userId body db) = Inl e"
  shows "db_users (snd (createOrder cfg now ident userId body db)) = db_users db"
    and "db_statsRuns (snd (createOrder cfg now ident userId body db)) = db_statsRuns db"
    and "db_orders (snd (createOrder cfg now ident userId body db)) = db_orders db"
  using assms
  by (auto simp: createOrder_def order_save_def incrementOrderNumber_def
        Counter_findOneAndUpdate_def Let_def
      split: sum.splits if_splits prod.splits error.splits option.splits)

lemma calculateOrderStats_Inl:
  assumes "calculateOrderStats cfg doc unsaved db = (Inl e, db')"
  shows "e = ValidationError"
  using assms by (simp add: calculateOrderStats_def Let_def split: if_splits)

text \<open>
  A deletion that fails has found no order, and then changes nothing; or it has deleted
  the order and the save of the recomputation was refused.
\<close>

lemma deleteOrder_Inl:
  fixes db :: "('a::{zero,plus}) db"
  assumes "fst (deleteOrder cfg i db) = Inl e"
  shows "e \<noteq> ValidationError \<Longrightarrow> snd (deleteOrder cfg i db) = db"
    and "e = ValidationError \<Longrightarrow>
           \<exists>j deleted owner.
             i = Some j \<and> find (\<lambda>d. o_id d = j) (db_orders db) = Some deleted \<and>
             o_customer deleted = Some owner \<and>
             db_orders (snd (deleteOrder cfg i db)) = remove1 deleted (db_orders db) \<and>
             db_statsRuns (snd (deleteOrder cfg i db)) = db_statsRuns db @ [owner]"
proof -
  have cases: "(e = BadRequestError InvalidOrderId \<and> i = None) \<or>
               (e = NotFoundError OrderAbsent \<and>
                (\<exists>j. i = Some j \<and> find (\<lambda>d. o_id d = j) (db_orders db) = None)) \<or>
               (e = ValidationError \<and>
                (\<exists>j deleted owner U.
                   i = Some j \<and> find (\<lambda>d. o_id d = j) (db_orders db) = Some deleted \<and>
                   o_customer deleted = Some owner \<and> map_of (db_users db) owner = Some U))"
    using assms
    by (auto simp: deleteOrder_def updateUserStats_delete_def
        dest: calculateOrderStats_Inl
        split: option.splits prod.splits sum.splits if_splits)
  show "snd (deleteOrder cfg i db) = db" if "e \<noteq> ValidationError"
    using cases that by (auto simp: deleteOrder_def)
  show "\<exists>j deleted owner.
             i = Some j \<and> find (\<lambda>d. o_id d = j) (db_orders db) = Some deleted \<and>
             o_customer deleted = Some owner \<and>
             db_orders (snd (deleteOrder cfg i db)) = remove1 deleted (db_orders db) \<and>
             db_statsRuns (snd (deleteOrder cfg i db)) = db_statsRuns db @ [owner]"
    if "e = ValidationError"
  proof -
    from cases that obtain j deleted owner U where
      f: "i = Some j" "find (\<lambda>d. o_id d = j) (db_orders db) = Some deleted"
         "o_customer deleted = Some owner" "map_of (db_users db) owner = Some U"
      by auto
    have "db_orders (snd (deleteOrder cfg i db)) = remove1 deleted (db_orders db)"
      "db_statsRuns (snd (deleteOrder cfg i db)) = db_statsRuns db @ [owner]"
      by (simp_all add: f(1) deleteOrder_found(2) [OF f(2)] updateUserStats_delete_frame f(3,4))
    with f show ?thesis
      by blast
  qed
qed

text \<open>The operations on users and tokens run no recomputation either.\<close>

lemma statsRuns_user_operations:
  "db_statsRuns (snd (deleteRefreshTokenInUser cfg now cookie db)) = db_statsRuns db"
  "db_statsRuns (snd (logout cfg now cookie db)) = db_statsRuns db"
  "db_statsRuns (snd (refreshAccessToken cfg now cookie db)) = db_statsRuns db"
  "db_statsRuns (snd (User_findByIdAndUpdate ident body db)) = db_statsRuns db"
proof -
  show d: "db_statsRuns (snd (deleteRefreshTokenInUser cfg now cookie db)) = db_statsRuns db"
    for cookie
    by (auto simp: deleteRefreshTokenInUser_def user_save_def Let_def
          split: option.splits sum.splits)
  show "db_statsRuns (snd (logout cfg now cookie db)) = db_statsRuns db"
    using d [of cookie] by (auto simp: logout_def split: prod.splits sum.splits)
  show "db_statsRuns (snd (refreshAccessToken cfg now cookie db)) = db_statsRuns db"
    using d [of cookie]
    by (auto simp: refreshAccessToken_def generateRefreshToken_def user_save_def Let_def
          split: prod.splits sum.splits)
  show "db_statsRuns (snd (User_findByIdAndUpdate ident body db)) = db_statsRuns db"
    by (simp add: User_findByIdAndUpdate_def split: option.splits)
qed

text \<open>
  C9. A status update (\<open>updateOrder\<close>), whatever its outcome, leaves every user document
  as it is, statistics fields and order list included, and runs no recomputation of
  statistics. A recomputation runs exactly when an order has been created or deleted:
  a successful \<open>createOrder\<close> runs one, for the customer (none if that user is not
  stored), and a creation that fails runs none; a \<open>deleteOrder\<close> that returns the order
  has run one, for the owner of the deleted order (none if the order has no owner or
  the owner is not stored); a deletion that fails has changed nothing, unless it fails
  with the validation error of the recomputation it ran, after the order was deleted.
\<close>

theorem stats_recomputation_triggers:
  fixes db :: "('a::{zero,plus}) db"
  shows "db_users (snd (updateOrder n status db)) = db_users db \<and>
         db_statsRuns (snd (updateOrder n status db)) = db_statsRuns db \<and>
         (createOrder cfg now ident userId body db = (Inr placed, db1) \<longrightarrow>
            db_statsRuns db1 =
              db_statsRuns db @ (if map_of (db_users db) userId = None then [] else [userId])) \<and>
         (fst (createOrder cfg now ident userId body db) = Inl e \<longrightarrow>
            db_statsRuns (snd (createOrder cfg now ident userId body db)) = db_statsRuns db \<and>
            db_users (snd (createOrder cfg now ident userId body db)) = db_users db) \<and>
         (deleteOrder cfg i db = (Inr deleted, db2) \<longrightarrow>
            db_statsRuns db2 =
              db_statsRuns db @
                (case o_customer deleted of
                   None \<Rightarrow> []
                 | Some owner \<Rightarrow> if map_of (db_users db) owner = None then [] else [owner])) \<and>
         (fst (deleteOrder cfg i db) = Inl e' \<longrightarrow> e' \<noteq> ValidationError \<longrightarrow>
            snd (deleteOrder cfg i db) = db) \<and>
         (fst (deleteOrder cfg i db) = Inl ValidationError \<longrightarrow>
            (\<exists>j deleted owner.
               i = Some j \<and> find (\<lambda>d. o_id d = j) (db_orders db) = Some deleted \<and>
               o_customer deleted = Some owner \<and>
               db_orders (snd (deleteOrder cfg i db)) = remove1 deleted (db_orders db) \<and>
               db_statsRuns (snd (deleteOrder cfg i db)) = db_statsRuns db @ [owner]))"
proof -
  have create: "db_statsRuns db1 =
      db_statsRuns db @ (if map_of (db_users db) userId = None then [] else [userId])"
    if "createOrder cfg now ident userId body db = (Inr placed, db1)"
  proof -
    note c = createOrder_Inr [OF that]
    have "o_customer placed = (case map_of (db_users db) userId of
                                 None \<Rightarrow> None | Some user \<Rightarrow> Some userId)"
      by (simp add: c(1))
    then show ?thesis
      unfolding c(4)
      by (auto simp: updateUserStats_save_def calculateOrderStats_frame split: option.splits)
  qed
  have delete: "db_statsRuns db2 =
      db_statsRuns db @
        (case o_customer deleted of
           None \<Rightarrow> []
         | Some owner \<Rightarrow> if map_of (db_users db) owner = None then [] else [owner])"
    if "deleteOrder cfg i db = (Inr deleted, db2)"
    using deleteOrder_Inr(2) [OF that]
    by (simp add: updateUserStats_delete_frame split: option.splits)
  show ?thesis
    using create delete
    by (intro conjI impI updateOrder_frame(1,2) createOrder_Inl(1,2) [of cfg now ident userId body db e]
          deleteOrder_Inl(1) [of cfg i db e'] deleteOrder_Inl(2) [of cfg i db ValidationError])
       simp_all
qed

theorem stats_recomputation_triggers_witness:
  "fst (updateOrder (Some 1) (Some ''completed'') db0) = Inr (order0\<lparr>o_status := Completed\<rparr>) \<and>
   db_users (snd (updateOrder (Some 1) (Some ''completed'') db0)) = db_users db0 \<and>
   db_statsRuns (snd (updateOrder (Some 1) (Some ''completed'') db0)) = [] \<and>
   db_statsRuns (snd (createOrder cfg0 500 51 1 body0 db0)) = [1] \<and>
   fst (createOrder cfg0 500 51 1 (body0\<lparr>b_total := Some 25\<rparr>) db0) =
     Inl (BadRequestError WrongOrderTotal) \<and>
   db_statsRuns (snd (createOrder cfg0 500 51 1 (body0\<lparr>b_total := Some 25\<rparr>) db0)) = [] \<and>
   db_statsRuns (snd (deleteOrder cfg0 (Some 50) db0)) = [3] \<and>
   fst (deleteOrder cfg0 (Some 77) db0) = Inl (NotFoundError OrderAbsent) \<and>
   snd (deleteOrder cfg0 (Some 77) db0) = db0 \<and>
   fst (deleteOrder cfg0 (Some 50)
          (db0\<lparr>db_users := [(3, carol\<lparr>u_name := ''C''\<rparr>)]\<rparr>)) = Inl ValidationError \<and>
   db_statsRuns (snd (deleteOrder cfg0 (Some 50)
          (db0\<lparr>db_users := [(3, carol\<lparr>u_name := ''C''\<rparr>)]\<rparr>))) = [3] \<and>
   db_orders (snd (deleteOrder cfg0 (Some 50)
          (db0\<lparr>db_users := [(3, carol\<lparr>u_name := ''C''\<rparr>)]\<rparr>))) = []"
proof -
  let ?placed = "\<lparr>o_id = 51, o_orderNumber = Some 2, o_status = New, o_totalAmount = 30,
                  o_products = [10, 11], o_payment = ''online'', o_customer = Some 1,
                  o_deliveryAddress = Some ''Elm St 2'', o_email = ''alice@example.org'',
                  o_phone = ''+7 900 111'', o_comment = Some [], o_createdAt = 500\<rparr> :: int order"
  let ?short = "db0\<lparr>db_users := [(3, carol\<lparr>u_name := ''C''\<rparr>)]\<rparr>"
  have updated: "fst (updateOrder (Some 1) (Some ''completed'') db0) =
                   Inr (order0\<lparr>o_status := Completed\<rparr>)"
    by (simp add: updateOrder_def StatusType_of_def db0_def order0_def)
  have placed: "fst (createOrder cfg0 500 51 1 body0 db0) = Inr ?placed"
    by (simp add: createOrder_def order_save_def order_validate_def totalBasket_def
          incrementOrderNumber_def Counter_findOneAndUpdate_def body0_def db0_def cfg0_def
          order0_def field_text_def field_opt_def)
  have created: "createOrder cfg0 500 51 1 body0 db0 =
                   (Inr ?placed, snd (createOrder cfg0 500 51 1 body0 db0))"
    using placed by (simp add: prod_eq_iff)
  have refused: "fst (createOrder cfg0 500 51 1 (body0\<lparr>b_total := Some 25\<rparr>) db0) =
                   Inl (BadRequestError WrongOrderTotal)"
    by (simp add: createOrder_def totalBasket_def body0_def db0_def)
  have found: "find (\<lambda>d. o_id d = 50) (db_orders db0) = Some order0"
    by (simp add: db0_def order0_def)
  have owner: "o_customer order0 = Some 3" "map_of (db_users db0) 3 = Some carol"
    "user_validate cfg0 False carol"
    by (simp_all add: db0_def order0_def user_validate_def carol_def user0_def cfg0_def)
  have deleted: "deleteOrder cfg0 (Some 50) db0 = (Inr order0, snd (deleteOrder cfg0 (Some 50) db0))"
    by (simp add: deleteOrder_recomputes(1) [OF found owner])
  have missing: "fst (deleteOrder cfg0 (Some 77) db0) = Inl (NotFoundError OrderAbsent)"
    by (simp add: deleteOrder_def db0_def order0_def)
  have invalid: "fst (deleteOrder cfg0 (Some 50) ?short) = Inl ValidationError"
    by (simp add: deleteOrder_def updateUserStats_delete_def calculateOrderStats_def
          aggregateOrderStats_def assignStats_def user_validate_def update_doc_def
          db0_def order0_def carol_def user0_def cfg0_def)
  have facts: "db_statsRuns db0 = []" "map_of (db_users db0) 1 = Some user0"
    "map_of (db_users db0) 3 = Some carol" "o_customer order0 = Some 3"
    "db_statsRuns ?short = []" "db_orders ?short = [order0]"
    by (simp_all add: db0_def order0_def)
  note t = stats_recomputation_triggers
    [where db = db0 and n = "Some 1" and status = "Some ''completed''" and cfg = cfg0
       and now = 500 and ident = 51 and userId = 1]
  note upd = t [where body = body0, THEN conjunct1]
    t [where body = body0, THEN conjunct2, THEN conjunct1]
  note create = t [where body = body0 and placed = ?placed
                     and ?db1.0 = "snd (createOrder cfg0 500 51 1 body0 db0)",
                   THEN conjunct2, THEN conjunct2, THEN conjunct1, rule_format, OF created]
  note fail = t [where body = "body0\<lparr>b_total := Some 25\<rparr>",
                 THEN conjunct2, THEN conjunct2, THEN conjunct2, THEN conjunct1,
                 rule_format, OF refused, THEN conjunct1]
  note delete = t [where body = body0 and i = "Some 50" and deleted = order0
                     and ?db2.0 = "snd (deleteOrder cfg0 (Some 50) db0)",
                   THEN conjunct2, THEN conjunct2, THEN conjunct2, THEN conjunct2,
                   THEN conjunct1, rule_format, OF deleted]
  have other: "NotFoundError OrderAbsent \<noteq> ValidationError"
    by simp
  note gone = t [where body = body0 and i = "Some 77",
                 THEN conjunct2, THEN conjunct2, THEN conjunct2, THEN conjunct2,
                 THEN conjunct2, THEN conjunct1, rule_format, OF missing other]
  from stats_recomputation_triggers
    [where db = ?short and cfg = cfg0 and i = "Some 50",
     THEN conjunct2, THEN conjunct2, THEN conjunct2, THEN conjunct2,
     THEN conjunct2, THEN conjunct2, rule_format, OF invalid]
  obtain j gone_order owner where
    g: "Some 50 = Some j" "find (\<lambda>d. o_id d = j) (db_orders ?short) = Some gone_order"
       "o_customer gone_order = Some owner"
       "db_orders (snd (deleteOrder cfg0 (Some 50) ?short)) = remove1 gone_order (db_orders ?short)"
       "db_statsRuns (snd (deleteOrder cfg0 (Some 50) ?short)) = db_statsRuns ?short @ [owner]"
    by blast
  have which: "gone_order = order0" "owner = 3"
    using g(1,2,3) by (auto simp: db0_def order0_def split: if_splits)
  have runs_invalid: "db_statsRuns (snd (deleteOrder cfg0 (Some 50) ?short)) = [3]"
    using g(5) by (simp add: which facts)
  have orders_invalid: "db_orders (snd (deleteOrder cfg0 (Some 50) ?short)) = []"
    using g(4) by (simp add: which facts)
  have runs_create: "db_statsRuns (snd (createOrder cfg0 500 51 1 body0 db0)) = [1]"
    using create by (simp add: db0_def)
  have runs_delete: "db_statsRuns (snd (deleteOrder cfg0 (Some 50) db0)) = [3]"
    using delete by (simp add: facts)
  have users_update: "db_users (snd (updateOrder (Some 1) (Some ''completed'') db0)) = db_users db0"
    by (rule upd(1))
  have runs_update: "db_statsRuns (snd (updateOrder (Some 1) (Some ''completed'') db0)) = []"
    using upd(2) by (simp add: facts)
  have runs_fail: "db_statsRuns (snd (createOrder cfg0 500 51 1 (body0\<lparr>b_total := Some 25\<rparr>) db0)) = []"
    using fail by (simp add: facts)
  show ?thesis
    by (intro conjI updated users_update runs_update runs_create refused runs_fail runs_delete
          missing gone invalid runs_invalid orders_invalid)
qed

section \<open>Passwords and serialization\<close>

text \<open>
  C8 at the failing input: the authenticated customer 1 sends \<open>updateCurrentUser\<close> a
  body that sets \<open>password\<close> to \<open>hunter22\<close>. The query update runs no save hook, so the
  stored password is the plaintext itself, not its hash; \<open>updateCustomer\<close> does the same.
\<close>

theorem updateCurrentUser_stores_plaintext:
  "fst (updateCurrentUser (1, user0) body_pw db0) =
     Inr (1, user0\<lparr>u_password := ''hunter22''\<rparr>) \<and>
   map_of (db_users (snd (updateCurrentUser (1, user0) body_pw db0))) 1 =
     Some (user0\<lparr>u_password := ''hunter22''\<rparr>) \<and>
   map_of (db_users (snd (updateCustomer 1 body_pw db0))) 1 =
     Some (user0\<lparr>u_password := ''hunter22''\<rparr>) \<and>
   bcrypt_hash cfg0 ''hunter22'' (saltRounds cfg0) \<noteq> ''hunter22''"
  by (simp add: updateCurrentUser_def updateCustomer_def User_findByIdAndUpdate_def
        apply_user_body_def set_field_def update_doc_def body_pw_def db0_def cfg0_def)

text \<open>
  The paths that do what the claim says. A password that was modified is hashed by the
  pre-save hook, so registration stores the hash of the plaintext.
\<close>

lemma hashingPassword_modified:
  "u_password (hashingPassword cfg True user) =
     bcrypt_hash cfg (u_password user) (saltRounds cfg)"
  "hashingPassword cfg False user = user"
  by (simp_all add: hashingPassword_def)

lemma map_of_snoc_fresh:
  assumes "k \<notin> fst ` set docs"
  shows "map_of (docs @ [(k, v)]) k = Some v"
  using assms by (induction docs) auto

lemma register_stores_hash:
  fixes db :: "('a::zero) db"
  assumes "register cfg now ident body db = (Inr resp, db')"
  shows "map_option u_password (map_of (db_users db') ident) =
           Some (bcrypt_hash cfg (rb_password body) (saltRounds cfg))"
  using assms
  by (auto simp: register_def generateRefreshToken_def user_save_def hashingPassword_def
        Let_def map_of_update_doc map_of_snoc_fresh
      split: if_splits sum.splits error.splits prod.splits)

text \<open>
  The serialized form of a user has no \<open>password\<close> key (nor \<open>tokens\<close>, \<open>roles\<close>, \<open>_id\<close>),
  and does not depend on the password.
\<close>

lemma toJSON_without_password:
  "''password'' \<notin> fst ` set (toJSON doc)"
  "''tokens'' \<notin> fst ` set (toJSON doc)"
  "''roles'' \<notin> fst ` set (toJSON doc)"
  "''_id'' \<notin> fst ` set (toJSON doc)"
  by (auto simp: toJSON_def Let_def split: option.splits)

lemma toJSON_password_independent:
  "toJSON (uid, user\<lparr>u_password := p\<rparr>) = toJSON (uid, user)"
  by (simp add: toJSON_def Let_def)

section \<open>Sequence generator\<close>

text \<open>
  Calls of the generator that follow one another hand out consecutive values, from 1 on a
  store without a counter document. (What concurrent callers get depends on the store.)
\<close>

lemma nextValues_from:
  "fst (nextValues k db) =
     map (\<lambda>j. (case db_counter db of None \<Rightarrow> 0 | Some n \<Rightarrow> n) + Suc j) [0..<k]"
proof (induction k arbitrary: db)
  case 0
  show ?case by simp
next
  case (Suc k)
  have "map (\<lambda>j. c + Suc j) [0..<Suc k] = (c + 1) # map (\<lambda>j. (c + 1) + Suc j) [0..<k]" for c :: nat
    by (simp add: upt_rec [of 0 "Suc k"] map_Suc_upt [symmetric] del: upt_Suc)
  then show ?case
    by (simp add: Suc.IH Counter_findOneAndUpdate_def Let_def split_beta split: option.splits
             del: upt_Suc)
qed

lemma nextValues_fresh:
  assumes "db_counter db = None"
  shows "fst (nextValues k db) = [1..<Suc k]" and "distinct (fst (nextValues k db))"
proof -
  show "fst (nextValues k db) = [1..<Suc k]"
    by (simp add: nextValues_from assms map_Suc_upt del: upt_Suc)
  then show "distinct (fst (nextValues k db))"
    by simp
qed

end
